theory Spec2Isabelle
  imports Main "HOL-Library.Sublist"
begin

section \<open>Panics\<close>

text \<open>
  A Go panic is a value of the left summand: every function of the development that can
  panic returns \<open>panic + 'a\<close>.
\<close>

datatype panic = Panic string

section \<open>Requests, handlers and middlewares (net/http, as the tests use it)\<close>

text \<open>
  One exchange: the request and the response recorder that \<^verbatim>\<open>ServeHTTP(w, r)\<close> passes
  along. Handlers mutate both in place (the tests read \<^verbatim>\<open>r.Header\<close> and \<^verbatim>\<open>w.Header()\<close>
  after the call), so a handler is a function from the exchange to the exchange.
  A header maps a name to the list of its values.
\<close>

record Exchange =
  reqMethod :: string
  reqPath :: string
  reqHeader :: "string \<Rightarrow> string list"
  respHeader :: "string \<Rightarrow> string list"
  respCode :: int
  respBody :: string

type_synonym Handler = "Exchange \<Rightarrow> Exchange"

type_synonym Middleware = "Handler \<Rightarrow> Handler"

text \<open>\<^verbatim>\<open>Header.Add\<close> appends a value; \<^verbatim>\<open>Header.Set\<close> replaces the values by one.\<close>

definition Header_Add :: "(string \<Rightarrow> string list) \<Rightarrow> string \<Rightarrow> string \<Rightarrow> (string \<Rightarrow> string list)" where
  "Header_Add h k v = h(k := h k @ [v])"

definition Header_Set :: "(string \<Rightarrow> string list) \<Rightarrow> string \<Rightarrow> string \<Rightarrow> (string \<Rightarrow> string list)" where
  "Header_Set h k v = h(k := [v])"

text \<open>
  \<^verbatim>\<open>orderMiddleware\<close> and \<^verbatim>\<open>dummyMiddleware\<close> of option\_test.go: they mark the request
  and the response (\<open>order_mark\<close> is the mark of \<^verbatim>\<open>orderMiddleware\<close>) and call the next
  handler.
\<close>

definition order_mark :: "string \<Rightarrow> Exchange \<Rightarrow> Exchange" where
  "order_mark s x =
     x\<lparr>reqHeader := Header_Add (reqHeader x) ''X-Test-Order'' s,
       respHeader := Header_Set (respHeader x) ''X-Test-Response'' ''response''\<rparr>"

definition orderMiddleware :: "string \<Rightarrow> Middleware" where
  "orderMiddleware s handler = (\<lambda>x. handler (order_mark s x))"

definition dummyMiddleware :: Middleware where
  "dummyMiddleware handler =
     (\<lambda>x. handler (x\<lparr>reqHeader := Header_Set (reqHeader x) ''X-Test'' ''test'',
                      respHeader := Header_Set (respHeader x) ''X-Test-Response'' ''response''\<rparr>))"

section \<open>Tag lists (server.go, Server.Tags / AddTags / RemoveTags; the Route methods)\<close>

text \<open>
  \<^verbatim>\<open>slices.Delete(s, i, j)\<close> removes the elements \<^verbatim>\<open>s[i:j]\<close> and panics when
  the bounds are not \<^verbatim>\<open>i <= j <= len(s)\<close>.
\<close>

definition slices_Delete :: "'a list \<Rightarrow> nat \<Rightarrow> nat \<Rightarrow> panic + 'a list" where
  "slices_Delete s i j =
     (if i \<le> j \<and> j \<le> length s then Inr (take i s @ drop j s)
      else Inl (Panic ''slice bounds out of range''))"

text \<open>
  The inner loop \<^verbatim>\<open>for i, t := range s.tags { if t == tag { s.tags = slices.Delete(s.tags, i, i+1); break } }\<close>.
  The range expression is evaluated once, so the loop walks the list as it was on entry
  (first argument, with the index of its head as second argument) and deletes in the
  whole list (last argument).
\<close>

fun removeTag_scan :: "string list \<Rightarrow> nat \<Rightarrow> string \<Rightarrow> string list \<Rightarrow> panic + string list" where
  "removeTag_scan [] i tag whole = Inr whole"
| "removeTag_scan (t # rest) i tag whole =
     (if t = tag then slices_Delete whole i (i + 1)
      else removeTag_scan rest (Suc i) tag whole)"

text \<open>The outer loop \<^verbatim>\<open>for _, tag := range tags\<close>.\<close>

fun removeTags_loop :: "string list \<Rightarrow> string list \<Rightarrow> panic + string list" where
  "removeTags_loop [] cur = Inr cur"
| "removeTags_loop (tag # others) cur =
     (case removeTag_scan cur 0 tag cur of
        Inl e \<Rightarrow> Inl e
      | Inr cur' \<Rightarrow> removeTags_loop others cur')"

text \<open>
  The part of \<^verbatim>\<open>openapi3.Operation\<close> that the fluent methods of \<^verbatim>\<open>Route\<close> write. A route
  holds a pointer to its operation, so these methods, whose receiver is a value, change
  the operation of the route they are called on; here they return the changed route.
\<close>

record Operation =
  Tags :: "string list"
  Summary :: string
  Description :: string
  OperationID :: string
  Deprecated :: bool





text \<open>The specification's wording of one removal: the list without the first occurrence.\<close>

definition without_first :: "string \<Rightarrow> string list \<Rightarrow> string list" where
  "without_first t xs = takeWhile (\<lambda>x. x \<noteq> t) xs @ drop 1 (dropWhile (\<lambda>x. x \<noteq> t) xs)"

section \<open>The server and its options (server.go)\<close>

text \<open>
  A Go function value is identified by its name; a nil function is \<open>None\<close>.
\<close>

datatype funcref = GoFunc string

record OpenAPIConfig =
  DisableSwagger :: bool
  DisableSwaggerUI :: bool
  DisableLocalSave :: bool
  SwaggerUrl :: string
  UIHandler :: "funcref option"
  JsonUrl :: string
  JsonFilePath :: string
  PrettyFormatJson :: bool

definition defaultOpenAPIConfig :: OpenAPIConfig where
  "defaultOpenAPIConfig =
     \<lparr>DisableSwagger = False, DisableSwaggerUI = False, DisableLocalSave = False,
      SwaggerUrl = ''/swagger'', UIHandler = Some (GoFunc ''DefaultOpenAPIHandler''),
      JsonUrl = ''/swagger/openapi.json'', JsonFilePath = ''doc/openapi.json'',
      PrettyFormatJson = False\<rparr>"

text \<open>
  The fields of \<^verbatim>\<open>Server\<close> that the options below read or write. \<open>Addr\<close> is the
  address of the embedded \<^verbatim>\<open>http.Server\<close>; \<open>Mux\<close> holds the handlers registered
  with the \<^verbatim>\<open>http.ServeMux\<close>, by method and path; \<open>specPaths\<close> holds the operations of
  \<^verbatim>\<open>OpenApiSpec.Paths\<close>, by method and path; \<open>listener\<close> holds the address of the
  configured listener; \<open>specServers\<close> is \<^verbatim>\<open>OpenApiSpec.Servers\<close> (URL and description);
  \<open>globalOpenAPIResponses\<close> holds code, description and the name of the error type.
  \<open>slog\<close> is not a field of the Go struct: it is the output of the process-wide default
  logger (\<^verbatim>\<open>slog.Error\<close>), threaded with the server so that logging is visible.
\<close>

record Server =
  Addr :: string
  corsMiddleware :: "funcref option"
  tags :: "string list"
  Mux :: "((string \<times> string) \<times> Handler) list"
  specPaths :: "((string \<times> string) \<times> Operation) list"
  middlewares :: "Middleware list"
  disableStartupMessages :: bool
  disableAutoGroupTags :: bool
  basePath :: string
  globalOpenAPIResponses :: "(int \<times> string \<times> string) list"
  specServers :: "(string \<times> string) list"
  listener :: "string option"
  autoAuthEnabled :: bool
  acceptedContentTypes :: "string list"
  DisallowUnknownFields :: bool
  DisableOpenapi :: bool
  maxBodySize :: int
  Serialize :: "funcref option"
  SerializeError :: "funcref option"
  ErrorHandler :: "funcref option"
  OpenAPIConfig :: OpenAPIConfig
  isTLS :: bool
  slog :: "string list"

type_synonym option_fn = "Server \<Rightarrow> panic + Server"

subsection \<open>Tags of a server\<close>




subsection \<open>Options\<close>

definition WithCorsMiddleware :: "funcref option \<Rightarrow> option_fn" where
  "WithCorsMiddleware mw c = Inr (c\<lparr>corsMiddleware := mw\<rparr>)"

text \<open>
  \<^verbatim>\<open>WithGlobalResponseTypes(code, description, errorType...)\<close> appends \<^verbatim>\<open>HTTPError{}\<close>
  to the variadic list and records its first element.
\<close>

definition WithGlobalResponseTypes :: "int \<Rightarrow> string \<Rightarrow> string list \<Rightarrow> option_fn" where
  "WithGlobalResponseTypes code description errorType c =
     Inr (c\<lparr>globalOpenAPIResponses :=
            globalOpenAPIResponses c @ [(code, description, hd (errorType @ [''HTTPError'']))]\<rparr>)"

definition WithoutAutoGroupTags :: option_fn where
  "WithoutAutoGroupTags c = Inr (c\<lparr>disableAutoGroupTags := True\<rparr>)"

definition WithBasePath :: "string \<Rightarrow> option_fn" where
  "WithBasePath p c = Inr (c\<lparr>basePath := p\<rparr>)"

definition WithMaxBodySize :: "int \<Rightarrow> option_fn" where
  "WithMaxBodySize n c = Inr (c\<lparr>maxBodySize := n\<rparr>)"

definition WithAutoAuth :: option_fn where
  "WithAutoAuth c = Inr (c\<lparr>autoAuthEnabled := True\<rparr>)"

definition WithDisallowUnknownFields :: "bool \<Rightarrow> option_fn" where
  "WithDisallowUnknownFields b c = Inr (c\<lparr>DisallowUnknownFields := b\<rparr>)"

definition WithAddr :: "string \<Rightarrow> option_fn" where
  "WithAddr addr c =
     (if listener c \<noteq> None
      then Inl (Panic ''cannot set addr when a listener is already configured'')
      else Inr (c\<lparr>Addr := addr\<rparr>))"

definition WithXML :: option_fn where
  "WithXML c = Inr (c\<lparr>Serialize := Some (GoFunc ''SendXML''),
                      SerializeError := Some (GoFunc ''SendXMLError'')\<rparr>)"

definition WithRequestContentType :: "string list \<Rightarrow> option_fn" where
  "WithRequestContentType consumes s = Inr (s\<lparr>acceptedContentTypes := consumes\<rparr>)"

definition WithSerializer :: "funcref option \<Rightarrow> option_fn" where
  "WithSerializer serializer c = Inr (c\<lparr>Serialize := serializer\<rparr>)"

definition WithErrorSerializer :: "funcref option \<Rightarrow> option_fn" where
  "WithErrorSerializer serializer c = Inr (c\<lparr>SerializeError := serializer\<rparr>)"

definition WithErrorHandler :: "funcref option \<Rightarrow> option_fn" where
  "WithErrorHandler errorHandler c = Inr (c\<lparr>ErrorHandler := errorHandler\<rparr>)"

definition WithoutStartupMessages :: option_fn where
  "WithoutStartupMessages c = Inr (c\<lparr>disableStartupMessages := True\<rparr>)"

text \<open>
  \<^verbatim>\<open>WithListener\<close>: the listener is given by its address and by whether its dynamic type
  is \<^verbatim>\<open>*tls.listener\<close> (what \<^verbatim>\<open>isTLSListener\<close> computes).
\<close>

definition WithListener :: "string \<Rightarrow> bool \<Rightarrow> option_fn" where
  "WithListener addr tls s =
     (if listener s \<noteq> None
      then Inl (Panic ''a listener is already configured; cannot overwrite it'')
      else (case WithAddr addr (s\<lparr>isTLS := tls\<rparr>) of
              Inl e \<Rightarrow> Inl e
            | Inr s' \<Rightarrow> Inr (s'\<lparr>listener := Some addr\<rparr>)))"

text \<open>The messages of the three \<^verbatim>\<open>slog.Error\<close> calls of \<^verbatim>\<open>WithOpenAPIConfig\<close>.\<close>

definition msgJsonSpecLocalPath :: string where
  "msgJsonSpecLocalPath = ''Error writing json spec. Value of jsonSpecLocalPath option is not valid''"

definition msgJsonSpecUrl :: string where
  "msgJsonSpecUrl =
     ''Error serving openapi json spec. Value of s.OpenAPIConfig.JsonSpecUrl option is not valid''"

definition msgSwaggerUrl :: string where
  "msgSwaggerUrl = ''Error serving swagger ui. Value of s.OpenAPIConfig.SwaggerUrl option is not valid''"

text \<open>
  \<^verbatim>\<open>WithOpenAPIConfig\<close> of server.go. The two validators \<^verbatim>\<open>validateJsonSpecUrl\<close> and
  \<^verbatim>\<open>validateSwaggerUrl\<close> are declared in a file that is not part of the sources verified here and are parameters.
  A failed check logs and returns.
\<close>

definition WithOpenAPIConfig ::
  "(string \<Rightarrow> bool) \<Rightarrow> (string \<Rightarrow> bool) \<Rightarrow> OpenAPIConfig \<Rightarrow> option_fn" where
  "WithOpenAPIConfig validateJsonSpecUrl validateSwaggerUrl openapiConfig s =
     (let c0 = OpenAPIConfig s;
          c1 = (if JsonUrl openapiConfig \<noteq> [] then c0\<lparr>JsonUrl := JsonUrl openapiConfig\<rparr> else c0);
          c2 = (if SwaggerUrl openapiConfig \<noteq> [] then c1\<lparr>SwaggerUrl := SwaggerUrl openapiConfig\<rparr> else c1);
          c3 = (if JsonFilePath openapiConfig \<noteq> []
                then c2\<lparr>JsonFilePath := JsonFilePath openapiConfig\<rparr> else c2);
          c4 = (if UIHandler openapiConfig \<noteq> None then c3\<lparr>UIHandler := UIHandler openapiConfig\<rparr> else c3);
          c5 = c4\<lparr>DisableSwagger := DisableSwagger openapiConfig,
                   DisableSwaggerUI := DisableSwaggerUI openapiConfig,
                   DisableLocalSave := DisableLocalSave openapiConfig,
                   PrettyFormatJson := PrettyFormatJson openapiConfig\<rparr>;
          s' = s\<lparr>OpenAPIConfig := c5\<rparr>
      in if \<not> validateJsonSpecUrl (JsonUrl c5)
         then Inr (s'\<lparr>slog := slog s' @
                [msgJsonSpecUrl]\<rparr>)
         else if \<not> validateSwaggerUrl (SwaggerUrl c5)
         then Inr (s'\<lparr>slog := slog s' @
                [msgSwaggerUrl]\<rparr>)
         else Inr s')"

text \<open>
  \<^verbatim>\<open>WithOpenAPIConfig\<close> of options.go, the earlier revision of the same option: it
  replaces the whole configuration, fills the empty fields from \<^verbatim>\<open>defaultOpenAPIConfig\<close>
  and checks the local path first (\<^verbatim>\<open>validateJsonSpecLocalPath\<close>, a third parameter).
  Its \<^verbatim>\<open>OpenAPIConfig\<close> struct has five of the eight fields; the others are carried along
  by the assignment.
\<close>

definition WithOpenAPIConfig_options_go ::
  "(string \<Rightarrow> bool) \<Rightarrow> (string \<Rightarrow> bool) \<Rightarrow> (string \<Rightarrow> bool) \<Rightarrow> OpenAPIConfig \<Rightarrow> option_fn" where
  "WithOpenAPIConfig_options_go validateJsonSpecLocalPath validateJsonSpecUrl validateSwaggerUrl
       openapiConfig s =
     (let c0 = openapiConfig;
          c1 = (if JsonUrl c0 = [] then c0\<lparr>JsonUrl := JsonUrl defaultOpenAPIConfig\<rparr> else c0);
          c2 = (if SwaggerUrl c1 = [] then c1\<lparr>SwaggerUrl := SwaggerUrl defaultOpenAPIConfig\<rparr> else c1);
          c3 = (if JsonFilePath c2 = []
                then c2\<lparr>JsonFilePath := JsonFilePath defaultOpenAPIConfig\<rparr> else c2);
          s' = s\<lparr>OpenAPIConfig := c3\<rparr>
      in if \<not> validateJsonSpecLocalPath (JsonFilePath c3)
         then Inr (s'\<lparr>slog := slog s' @
                [msgJsonSpecLocalPath]\<rparr>)
         else if \<not> validateJsonSpecUrl (JsonUrl c3)
         then Inr (s'\<lparr>slog := slog s' @
                [msgJsonSpecUrl]\<rparr>)
         else if \<not> validateSwaggerUrl (SwaggerUrl c3)
         then Inr (s'\<lparr>slog := slog s' @
                [msgSwaggerUrl]\<rparr>)
         else Inr s')"

subsection \<open>NewServer\<close>

text \<open>The struct literal at the head of \<^verbatim>\<open>NewServer\<close>; unnamed fields have their zero value.\<close>

definition initialServer :: Server where
  "initialServer =
     \<lparr>Addr = [], corsMiddleware = None, tags = [], Mux = [], specPaths = [], middlewares = [],
      disableStartupMessages = False, disableAutoGroupTags = False, basePath = [],
      globalOpenAPIResponses = [], specServers = [], listener = None,
      autoAuthEnabled = False, acceptedContentTypes = [], DisallowUnknownFields = False,
      DisableOpenapi = False, maxBodySize = 0, Serialize = None, SerializeError = None,
      ErrorHandler = None, OpenAPIConfig = defaultOpenAPIConfig, isTLS = False, slog = []\<rparr>"

definition defaultOptions :: "option_fn list" where
  "defaultOptions =
     [WithDisallowUnknownFields True,
      WithSerializer (Some (GoFunc ''Send'')),
      WithErrorSerializer (Some (GoFunc ''SendError'')),
      WithErrorHandler (Some (GoFunc ''ErrorHandler'')),
      WithGlobalResponseTypes 400 ''Bad Request _(validation or deserialization error)_'' [''HTTPError''],
      WithGlobalResponseTypes 500 ''Internal Server Error _(panics)_'' [''HTTPError'']]"

text \<open>\<^verbatim>\<open>for _, option := range ... { option(s) }\<close>: a panic of an option ends the loop.\<close>

fun apply_options :: "option_fn list \<Rightarrow> Server \<Rightarrow> panic + Server" where
  "apply_options [] s = Inr s"
| "apply_options (opt # opts) s =
     (case opt s of Inl e \<Rightarrow> Inl e | Inr s' \<Rightarrow> apply_options opts s')"

text \<open>
  The rest of \<^verbatim>\<open>NewServer\<close> after the options: the default address, the entry of
  \<^verbatim>\<open>OpenApiSpec.Servers\<close>, and the routes of automatic authentication. \<^verbatim>\<open>s.proto()\<close>
  and the registration of the three \<^verbatim>\<open>/auth\<close> routes (with the replacement of
  \<^verbatim>\<open>s.middlewares\<close> between them) are not part of the sources verified here: they are the
  parameters \<open>proto\<close> and \<open>authRoutes\<close>. \<^verbatim>\<open>startTime\<close> is not modelled.
\<close>

definition finishServer ::
  "(Server \<Rightarrow> string) \<Rightarrow> option_fn \<Rightarrow> Server \<Rightarrow> panic + Server" where
  "finishServer proto authRoutes s =
     (case (if Addr s = [] then WithAddr ''localhost:9999'' s else Inr s) of
        Inl e \<Rightarrow> Inl e
      | Inr s1 \<Rightarrow>
          (let s2 = s1\<lparr>specServers := specServers s1 @ [(proto s1 @ ''://'' @ Addr s1, ''local server'')]\<rparr>
           in if autoAuthEnabled s2 then authRoutes s2 else Inr s2))"

definition NewServer ::
  "(Server \<Rightarrow> string) \<Rightarrow> option_fn \<Rightarrow> option_fn list \<Rightarrow> panic + Server" where
  "NewServer proto authRoutes options =
     (case apply_options (defaultOptions @ options) initialServer of
        Inl e \<Rightarrow> Inl e
      | Inr s \<Rightarrow> finishServer proto authRoutes s)"

section \<open>Schema synthesis (package openapi3, ToSchema)\<close>

subsection \<open>What reflection shows of a Go value\<close>

text \<open>
  \<^verbatim>\<open>reflect.Kind\<close>. The kinds that \<^verbatim>\<open>ToSchema\<close> never looks into are the plain kinds;
  the others are the invalid kind of reflect's zero Value and the four kinds with a
  structure that \<^verbatim>\<open>ToSchema\<close> reads or tests.
\<close>

datatype plainkind = Bool | Int' | Int8 | Int16 | Int32 | Int64 | Uint | Uint8 | Uint16 | Uint32
  | Uint64 | Uintptr | Float32 | Float64 | Complex64 | Complex128 | Array | Chan | Func | Map
  | String | UnsafePointer

text \<open>(The kind \<^verbatim>\<open>reflect.Int\<close> is written \<open>Int'\<close>: \<open>Int\<close> is taken by HOL.)\<close>

datatype kind = Invalid | Plain plainkind | Interface | Pointer | Slice | Struct

text \<open>\<^verbatim>\<open>Kind.String()\<close>.\<close>

fun plainkind_String :: "plainkind \<Rightarrow> string" where
  "plainkind_String Bool = ''bool''"
| "plainkind_String Int' = ''int''"
| "plainkind_String Int8 = ''int8''"
| "plainkind_String Int16 = ''int16''"
| "plainkind_String Int32 = ''int32''"
| "plainkind_String Int64 = ''int64''"
| "plainkind_String Uint = ''uint''"
| "plainkind_String Uint8 = ''uint8''"
| "plainkind_String Uint16 = ''uint16''"
| "plainkind_String Uint32 = ''uint32''"
| "plainkind_String Uint64 = ''uint64''"
| "plainkind_String Uintptr = ''uintptr''"
| "plainkind_String Float32 = ''float32''"
| "plainkind_String Float64 = ''float64''"
| "plainkind_String Complex64 = ''complex64''"
| "plainkind_String Complex128 = ''complex128''"
| "plainkind_String Array = ''array''"
| "plainkind_String Chan = ''chan''"
| "plainkind_String Func = ''func''"
| "plainkind_String Map = ''map''"
| "plainkind_String String = ''string''"
| "plainkind_String UnsafePointer = ''unsafe.Pointer''"

fun Kind_String :: "kind \<Rightarrow> string" where
  "Kind_String Invalid = ''invalid''"
| "Kind_String (Plain k) = plainkind_String k"
| "Kind_String Interface = ''interface''"
| "Kind_String Pointer = ''ptr''"
| "Kind_String Slice = ''slice''"
| "Kind_String Struct = ''struct''"

text \<open>
  \<^verbatim>\<open>reflect.StructField\<close>: the Go name of the field, its tag as the list of its
  key/value pairs (\<^verbatim>\<open>json:"name" validate:"required"\<close> is
  \<open>[(''json'', ''name''), (''validate'', ''required'')]\<close>), and whether the field is
  exported. The type of the field comes with the field, in the struct type or value.
\<close>

record StructField =
  Name :: string
  Tag :: "(string \<times> string) list"
  Exported :: bool

text \<open>\<^verbatim>\<open>StructTag.Get(key)\<close>: the value of the first pair with that key, or the empty string.\<close>

definition Tag_Get :: "(string \<times> string) list \<Rightarrow> string \<Rightarrow> string" where
  "Tag_Get tag key = (case map_of tag key of None \<Rightarrow> [] | Some v \<Rightarrow> v)"

text \<open>
  Go types, as finite trees: a type of a plain kind with its \<^verbatim>\<open>Name()\<close> (empty for an
  unnamed type), \<^verbatim>\<open>time.Time\<close>, a struct type with its name and fields, a slice and a
  pointer type with their name and element type, an interface type with its name.
  A type that contains itself through a slice or a pointer (\<^verbatim>\<open>type L []L\<close>) is not a
  finite tree and is outside this model.
\<close>

datatype rtype =
    TBasic plainkind string
  | TTime
  | TStruct string "(StructField \<times> rtype) list"
  | TSlice string rtype
  | TPtr string rtype
  | TIface string

text \<open>
  Go values, as far as \<^verbatim>\<open>ToSchema\<close> reads them. \<open>VNil\<close> is the nil interface value
  (and reflect's zero Value, which is what \<^verbatim>\<open>reflect.ValueOf(nil)\<close> and \<^verbatim>\<open>Elem()\<close> of a
  nil pointer return). A value of a plain kind carries its kind and the name of its
  type. A \<^verbatim>\<open>time.Time\<close> is given by its rendering in the RFC3339 layout. A struct value
  has the name of its type and its fields with their values. Of a slice only the type
  is read: its name and element type. A pointer is nil or points to a value; both carry
  the name of the pointer type. An interface-typed variable (reached through a pointer,
  or as a struct field) holds \<open>VNil\<close> or a value.
\<close>

datatype rvalue =
    VNil
  | VBasic plainkind string
  | VTime string
  | VStruct string "(StructField \<times> rvalue) list"
  | VSlice string rtype
  | VPtrNil string
  | VPtr string rvalue
  | VIface string rvalue

text \<open>\<^verbatim>\<open>Value.Kind()\<close>.\<close>

fun Kind :: "rvalue \<Rightarrow> kind" where
  "Kind VNil = Invalid"
| "Kind (VBasic k n) = Plain k"
| "Kind (VTime t) = Struct"
| "Kind (VStruct n fs) = Struct"
| "Kind (VSlice n t) = Slice"
| "Kind (VPtrNil n) = Pointer"
| "Kind (VPtr n v) = Pointer"
| "Kind (VIface n v) = Interface"

text \<open>\<^verbatim>\<open>Type.Name()\<close> of the type of a value.\<close>

fun Type_Name :: "rvalue \<Rightarrow> string" where
  "Type_Name VNil = []"
| "Type_Name (VBasic k n) = n"
| "Type_Name (VTime t) = ''Time''"
| "Type_Name (VStruct n fs) = n"
| "Type_Name (VSlice n t) = n"
| "Type_Name (VPtrNil n) = n"
| "Type_Name (VPtr n v) = n"
| "Type_Name (VIface n v) = n"

text \<open>The zero value of a type; the zero \<^verbatim>\<open>time.Time\<close> renders as year 1.\<close>

primrec zero :: "rtype \<Rightarrow> rvalue" where
  "zero (TBasic k n) = VBasic k n"
| "zero TTime = VTime ''0001-01-01T00:00:00Z''"
| "zero (TStruct n fs) = VStruct n (map (map_prod id zero) fs)"
| "zero (TSlice n t) = VSlice n t"
| "zero (TPtr n t) = VPtrNil n"
| "zero (TIface n) = VIface n VNil"

text \<open>\<^verbatim>\<open>reflect.New(t).Interface()\<close>: a non-nil pointer, of an unnamed type, to the zero value.\<close>

definition reflect_New :: "rtype \<Rightarrow> rvalue" where
  "reflect_New t = VPtr [] (zero t)"

text \<open>\<^verbatim>\<open>if itemType.Kind() == reflect.Ptr { itemType = itemType.Elem() }\<close>.\<close>

fun deref_type :: "rtype \<Rightarrow> rtype" where
  "deref_type (TPtr n t) = t"
| "deref_type t = t"

text \<open>\<^verbatim>\<open>if value.Kind() == reflect.Ptr { value = value.Elem() }\<close>.\<close>

fun deref_value :: "rvalue \<Rightarrow> rvalue" where
  "deref_value (VPtr n v) = v"
| "deref_value (VPtrNil n) = VNil"
| "deref_value v = v"

text \<open>
  \<^verbatim>\<open>Value.Interface()\<close> of a value that was not read from a struct field: it panics on
  the zero Value and returns what an interface-typed variable holds.
\<close>

fun Value_Interface :: "rvalue \<Rightarrow> panic + rvalue" where
  "Value_Interface VNil = Inl (Panic ''reflect: call of reflect.Value.Interface on zero Value'')"
| "Value_Interface (VIface n v) = Inr v"
| "Value_Interface v = Inr v"

text \<open>The type assertion \<^verbatim>\<open>.(time.Time)\<close>.\<close>

fun asTime :: "rvalue \<Rightarrow> string option" where
  "asTime (VTime t) = Some t"
| "asTime v = None"

text \<open>\<^verbatim>\<open>value.NumField()\<close> and \<^verbatim>\<open>value.Field(i)\<close>, \<^verbatim>\<open>value.Type().Field(i)\<close> of a struct.\<close>

fun fields :: "rvalue \<Rightarrow> (StructField \<times> rvalue) list" where
  "fields (VStruct n fs) = fs"
| "fields v = []"

text \<open>\<^verbatim>\<open>strings.Contains\<close>.\<close>

fun strings_Contains :: "string \<Rightarrow> string \<Rightarrow> bool" where
  "strings_Contains [] substr = (substr = [])"
| "strings_Contains (c # s) substr = (prefix substr (c # s) \<or> strings_Contains s substr)"

subsection \<open>Schema\<close>

text \<open>
  The struct \<^verbatim>\<open>Schema\<close> is declared in a file that is not part of the sources verified here; these are the fields
  that \<^verbatim>\<open>ToSchema\<close> writes. \<^verbatim>\<open>Properties\<close> is a Go map (no order, one entry per key); a
  nil map and an empty map are both the empty map here. \<^verbatim>\<open>Items\<close> is a pointer.
\<close>

datatype Schema =
  Schema (Type: string) (Format: string) (Required: "string list") (Example: string)
    (Properties: "string \<Rightarrow> Schema option") (Items: "Schema option")

definition set_Type :: "Schema \<Rightarrow> string \<Rightarrow> Schema" where
  "set_Type s x = Schema x (Format s) (Required s) (Example s) (Properties s) (Items s)"

definition set_Format :: "Schema \<Rightarrow> string \<Rightarrow> Schema" where
  "set_Format s x = Schema (Type s) x (Required s) (Example s) (Properties s) (Items s)"

definition set_Required :: "Schema \<Rightarrow> string list \<Rightarrow> Schema" where
  "set_Required s x = Schema (Type s) (Format s) x (Example s) (Properties s) (Items s)"

definition set_Example :: "Schema \<Rightarrow> string \<Rightarrow> Schema" where
  "set_Example s x = Schema (Type s) (Format s) (Required s) x (Properties s) (Items s)"

definition set_Property :: "Schema \<Rightarrow> string \<Rightarrow> Schema \<Rightarrow> Schema" where
  "set_Property s k x =
     Schema (Type s) (Format s) (Required s) (Example s) ((Properties s)(k \<mapsto> x)) (Items s)"

definition set_Items :: "Schema \<Rightarrow> Schema option \<Rightarrow> Schema" where
  "set_Items s x = Schema (Type s) (Format s) (Required s) (Example s) (Properties s) x"

subsection \<open>ToSchema\<close>

text \<open>The literal \<^verbatim>\<open>Schema{Type: "object", Properties: make(map[string]Schema)}\<close>.\<close>

definition newSchema :: Schema where
  "newSchema = Schema ''object'' [] [] [] Map.empty None"

text \<open>
  The branch of the time value: \<^verbatim>\<open>s.Type = "string"\<close>, \<^verbatim>\<open>s.Format = "date-time"\<close>,
  \<^verbatim>\<open>s.Example = \<close> the value in the layout RFC3339.
\<close>

definition time_schema :: "Schema \<Rightarrow> string \<Rightarrow> Schema" where
  "time_schema s t = set_Example (set_Format (set_Type s ''string'') ''date-time'') t"

text \<open>
  The last branch, under \<^verbatim>\<open>!(value.Kind() == reflect.Struct || value.Kind() == reflect.Slice)\<close>:
  the name of the kind, with the names that contain \<^verbatim>\<open>int\<close> turned into \<^verbatim>\<open>integer\<close>
  and \<^verbatim>\<open>bool\<close> into \<^verbatim>\<open>boolean\<close>.
\<close>

definition kind_type :: "rvalue \<Rightarrow> Schema \<Rightarrow> Schema" where
  "kind_type v s =
     (let s1 = set_Type s (Kind_String (Kind v))
      in if strings_Contains (Type s1) ''int'' then set_Type s1 ''integer''
         else if Type s1 = ''bool'' then set_Type s1 ''boolean''
         else s1)"

text \<open>\<^verbatim>\<open>fieldName := fieldType.Tag.Get("json"); if fieldName == "" { fieldName = fieldType.Name }\<close>.\<close>

definition fieldName_of :: "StructField \<Rightarrow> string" where
  "fieldName_of fieldType =
     (let fieldName = Tag_Get (Tag fieldType) ''json''
      in if fieldName = [] then Name fieldType else fieldName)"

text \<open>\<^verbatim>\<open>strings.Contains(fieldType.Tag.Get("validate"), "required")\<close>.\<close>

definition marked_required :: "StructField \<Rightarrow> bool" where
  "marked_required fieldType = strings_Contains (Tag_Get (Tag fieldType) ''validate'') ''required''"

text \<open>
  The \<^verbatim>\<open>else\<close> branch of the loop over the fields, for a field whose kind is not
  struct. \<open>basic_schema\<close> is the literal stored for the field: its type is the name of
  the field's type, \<^verbatim>\<open>integer\<close> when that name contains \<^verbatim>\<open>int\<close> (the format is then
  replaced by the type's name when a format is given) and \<^verbatim>\<open>boolean\<close> when it is
  \<^verbatim>\<open>bool\<close>. \<open>basic_field\<close> is the whole branch: the field's name is appended to
  \<^verbatim>\<open>s.Required\<close> when the field is marked required, and the literal is stored.
\<close>

definition basic_schema :: "StructField \<Rightarrow> rvalue \<Rightarrow> Schema" where
  "basic_schema fieldType field =
     (let fieldTypeType0 = Type_Name field;
          format0 = Tag_Get (Tag fieldType) ''format'';
          fieldTypeType = (if strings_Contains fieldTypeType0 ''int'' then ''integer''
                           else if fieldTypeType0 = ''bool'' then ''boolean''
                           else fieldTypeType0);
          format = (if strings_Contains fieldTypeType0 ''int'' \<and> format0 \<noteq> []
                    then Type_Name field else format0)
      in Schema fieldTypeType format [] (Tag_Get (Tag fieldType) ''example'') Map.empty None)"

definition basic_field :: "StructField \<Rightarrow> rvalue \<Rightarrow> Schema \<Rightarrow> Schema" where
  "basic_field fieldType field s =
     (let fieldName = fieldName_of fieldType;
          s1 = (if marked_required fieldType
                then set_Required s (Required s @ [fieldName]) else s)
      in set_Property s1 fieldName (basic_schema fieldType field))"

text \<open>
  Weights for the termination of \<^verbatim>\<open>ToSchema\<close>: a slice weighs more than a pointer to
  the zero value of its element type.
\<close>

primrec type_weight :: "rtype \<Rightarrow> nat" where
  "type_weight (TBasic k n) = 0"
| "type_weight TTime = 0"
| "type_weight (TStruct n fs) = Suc (sum_list (map (\<lambda>p. Suc (snd p)) (map (map_prod id type_weight) fs)))"
| "type_weight (TSlice n t) = type_weight t + 2"
| "type_weight (TPtr n t) = Suc (type_weight t)"
| "type_weight (TIface n) = 1"

primrec weight :: "rvalue \<Rightarrow> nat" where
  "weight VNil = 0"
| "weight (VBasic k n) = 0"
| "weight (VTime t) = 0"
| "weight (VStruct n fs) = Suc (sum_list (map (\<lambda>p. Suc (snd p)) (map (map_prod id weight) fs)))"
| "weight (VSlice n t) = type_weight t + 2"
| "weight (VPtrNil n) = 0"
| "weight (VPtr n v) = Suc (weight v)"
| "weight (VIface n v) = Suc (weight v)"

definition fields_weight :: "(StructField \<times> rvalue) list \<Rightarrow> nat" where
  "fields_weight fs = sum_list (map (\<lambda>p. Suc (weight (snd p))) fs)"

lemma weight_zero: "weight (zero t) \<le> type_weight t"
proof (induction t)
  case (TStruct n fs)
  have "sum_list (map (\<lambda>p. Suc (weight (zero (snd p)))) fs)
        \<le> sum_list (map (\<lambda>p. Suc (type_weight (snd p))) fs)"
  proof (rule sum_list_mono)
    fix p assume a: "p \<in> set fs"
    obtain ft t where p: "p = (ft, t)" by (cases p)
    have "weight (zero t) \<le> type_weight t" using TStruct.IH [OF a, of t] p by simp
    then show "Suc (weight (zero (snd p))) \<le> Suc (type_weight (snd p))"
      by (simp add: p)
  qed
  then show ?case by (simp add: comp_def)
qed simp_all

lemma type_weight_deref: "type_weight (deref_type t) \<le> type_weight t"
  by (cases t) simp_all

lemma weight_New_deref: "weight (reflect_New (deref_type t)) < weight (VSlice n t)"
  using weight_zero [of "deref_type t"] type_weight_deref [of t]
  by (simp add: reflect_New_def)

lemma weight_deref_value: "weight (deref_value v) \<le> weight v"
  by (cases v) simp_all

lemma fields_weight_fields: "fields_weight (fields v) \<le> weight v"
  by (cases v) (simp_all add: fields_weight_def comp_def)

definition ToSchema_measure ::
  "rvalue + rvalue + (StructField \<times> rvalue) list \<times> Schema \<Rightarrow> nat" where
  "ToSchema_measure x =
     (case x of
        Inl v \<Rightarrow> 3 * weight v + 2
      | Inr (Inl v) \<Rightarrow> 3 * weight v + 1
      | Inr (Inr (fs, s)) \<Rightarrow> 3 * fields_weight fs)"

lemma ToSchema_measure_deref:
  "ToSchema_measure (Inr (Inl (deref_value v))) < ToSchema_measure (Inl v)"
  using weight_deref_value [of v] by (simp add: ToSchema_measure_def)

lemma ToSchema_measure_slice:
  "ToSchema_measure (Inl (reflect_New (deref_type t))) < ToSchema_measure (Inr (Inl (VSlice n t)))"
  using weight_New_deref [of t n] by (simp add: ToSchema_measure_def)

lemma ToSchema_measure_struct:
  "ToSchema_measure (Inr (Inr (fields v, s))) < ToSchema_measure (Inr (Inl v))"
  using fields_weight_fields [of v] by (simp add: ToSchema_measure_def)

lemma ToSchema_measure_field:
  "ToSchema_measure (Inl field) < ToSchema_measure (Inr (Inr ((fieldType, field) # rest, s)))"
  by (simp add: ToSchema_measure_def fields_weight_def)

lemma ToSchema_measure_rest:
  "ToSchema_measure (Inr (Inr (rest, s'))) < ToSchema_measure (Inr (Inr ((fieldType, field) # rest, s)))"
  by (simp add: ToSchema_measure_def fields_weight_def)

text \<open>
  \<^verbatim>\<open>ToSchema(v)\<close> returns nil for the nil interface and otherwise the schema of the
  value behind at most one pointer. \<open>schema_of\<close> is the body of \<^verbatim>\<open>ToSchema\<close> from the
  literal of line 15 on, for the value left by lines 20 to 24; its branches follow in
  the order of the source: the slice, the time value (which returns), the struct, the
  other kinds. \<open>struct_fields\<close> is the loop over the fields, from the field at hand on.
  \<^verbatim>\<open>field.Interface()\<close> panics on a field that is not exported.
\<close>

function ToSchema :: "rvalue \<Rightarrow> panic + Schema option"
  and schema_of :: "rvalue \<Rightarrow> panic + Schema"
  and struct_fields :: "(StructField \<times> rvalue) list \<Rightarrow> Schema \<Rightarrow> panic + Schema"
where
  "ToSchema v =
     (if v = VNil then Inr None
      else (case schema_of (deref_value v) of Inl e \<Rightarrow> Inl e | Inr s \<Rightarrow> Inr (Some s)))"
| "schema_of val =
     (case (case val of
              VSlice n itemType \<Rightarrow>
                (case ToSchema (reflect_New (deref_type itemType)) of
                   Inl e \<Rightarrow> Inl e
                 | Inr items \<Rightarrow> Inr (set_Items (set_Type newSchema ''array'') items))
            | _ \<Rightarrow> Inr newSchema) of
        Inl e \<Rightarrow> Inl e
      | Inr s \<Rightarrow>
          (case Value_Interface val of
             Inl e \<Rightarrow> Inl e
           | Inr iv \<Rightarrow>
               (case asTime iv of
                  Some t \<Rightarrow> Inr (time_schema s t)
                | None \<Rightarrow>
                    (case (if Kind val = Struct then struct_fields (fields val) s else Inr s) of
                       Inl e \<Rightarrow> Inl e
                     | Inr s' \<Rightarrow>
                         Inr (if \<not> (Kind val = Struct \<or> Kind val = Slice) then kind_type val s'
                              else s')))))"
| "struct_fields [] s = Inr s"
| "struct_fields ((fieldType, field) # rest) s =
     (if Kind field = Struct
      then (if \<not> Exported fieldType
            then Inl (Panic ''reflect.Value.Interface: cannot return value obtained from unexported field or method'')
            else (case ToSchema field of
                    Inl e \<Rightarrow> Inl e
                  | Inr None \<Rightarrow> Inl (Panic ''invalid memory address or nil pointer dereference'')
                  | Inr (Some fs) \<Rightarrow> struct_fields rest (set_Property s (fieldName_of fieldType) fs)))
      else struct_fields rest (basic_field fieldType field s))"
  by pat_completeness auto
termination
  by (relation "measure ToSchema_measure")
    (simp_all add: ToSchema_measure_deref ToSchema_measure_slice ToSchema_measure_struct
      ToSchema_measure_field ToSchema_measure_rest)

declare ToSchema.simps [simp del] schema_of.simps [simp del]

subsection \<open>The terms in which the schema of a struct is described\<close>

text \<open>
  The schema that the loop stores for one field: for a field of kind struct the result
  of the recursive call (\<open>nested_schema\<close> is that result where the call returns one),
  for any other field the literal of the \<^verbatim>\<open>else\<close> branch.
\<close>

definition nested_schema :: "rvalue \<Rightarrow> Schema" where
  "nested_schema field = (case ToSchema field of Inr (Some x) \<Rightarrow> x | _ \<Rightarrow> newSchema)"

definition field_entry :: "StructField \<times> rvalue \<Rightarrow> string \<times> Schema" where
  "field_entry p =
     (fieldName_of (fst p),
      if Kind (snd p) = Struct then nested_schema (snd p) else basic_schema (fst p) (snd p))"

text \<open>
  The names of the fields marked required, in the order of declaration: of all fields
  (the specification's wording), and of the fields whose kind is not struct.
\<close>

definition required_names :: "(StructField \<times> rvalue) list \<Rightarrow> string list" where
  "required_names fs = map (\<lambda>p. fieldName_of (fst p)) (filter (\<lambda>p. marked_required (fst p)) fs)"

definition required_basic_names :: "(StructField \<times> rvalue) list \<Rightarrow> string list" where
  "required_basic_names fs =
     map (\<lambda>p. fieldName_of (fst p))
       (filter (\<lambda>p. Kind (snd p) \<noteq> Struct \<and> marked_required (fst p)) fs)"

text \<open>The loop returns when every field of kind struct is exported and has a schema.\<close>

definition fields_readable :: "(StructField \<times> rvalue) list \<Rightarrow> bool" where
  "fields_readable fs =
     list_all (\<lambda>p. Kind (snd p) = Struct \<longrightarrow>
                  Exported (fst p) \<and> (case ToSchema (snd p) of Inr (Some x) \<Rightarrow> True | _ \<Rightarrow> False)) fs"

section \<open>Route registration, middleware and the exported specification\<close>

text \<open>
  \<^verbatim>\<open>fuego.Use\<close>, \<^verbatim>\<open>fuego.Register\<close> (behind \<^verbatim>\<open>Get\<close> and \<^verbatim>\<open>Post\<close>), the route options
  \<^verbatim>\<open>option.Middleware\<close> and \<^verbatim>\<open>option.Hide\<close>, \<^verbatim>\<open>OutputOpenAPISpec\<close> and the wrapping of a
  controller are called by option\_test.go; their source is not part of what is verified
  here, and each is modelled from the specification, as its description says.
\<close>

text \<open>\<^verbatim>\<open>helloWorld\<close> of option\_test.go: a controller that returns its text and no error.
  A controller returns a serialized body, or an error with its HTTP status.\<close>

type_synonym Controller = "Exchange \<Rightarrow> int + string"


text \<open>
  Modelled from the spec: the request and response pipelines around a controller
  (sections 4.2 and 4.3), which are missing. On success the status 200 and the body are
  written; on an error the status of the error is written.
\<close>

definition HTTPHandler :: "Controller \<Rightarrow> Handler" where
  "HTTPHandler controller x =
     (case controller x of
        Inr body \<Rightarrow> x\<lparr>respCode := 200, respBody := body\<rparr>
      | Inl status \<Rightarrow> x\<lparr>respCode := status\<rparr>)"

text \<open>
  Modelled from the spec: the declaration of a route, which is missing. Section 3 gives
  it a method, a path, its operation and its per-route middleware, and the operation a
  hidden flag.
\<close>

record BaseRoute =
  Method :: string
  Path :: string
  RouteOperation :: Operation
  Middlewares :: "Middleware list"
  Hidden :: bool

text \<open>
  Modelled from the spec: the route as \<^verbatim>\<open>Register\<close> creates it before the options run,
  which is missing: no tags or texts, no middleware, not hidden.
\<close>

definition newRoute :: "string \<Rightarrow> string \<Rightarrow> BaseRoute" where
  "newRoute method path =
     \<lparr>Method = method, Path = path,
      RouteOperation = \<lparr>Tags = [], Summary = [], Description = [], OperationID = [], Deprecated = False\<rparr>,
      Middlewares = [], Hidden = False\<rparr>"

text \<open>
  Modelled from the spec: the route option \<^verbatim>\<open>option.Middleware\<close>, which is missing.
  Per-route middleware is kept in the order in which the options give it (section 4.5).
\<close>

definition option_Middleware :: "Middleware list \<Rightarrow> BaseRoute \<Rightarrow> BaseRoute" where
  "option_Middleware mws r = r\<lparr>Middlewares := Middlewares r @ mws\<rparr>"


text \<open>
  Modelled from the spec: the loop of \<^verbatim>\<open>Register\<close> over the options, which is missing.
  The options are applied in call order, each to the route the one before left
  (section 4.4).
\<close>

fun apply_route_options :: "(BaseRoute \<Rightarrow> BaseRoute) list \<Rightarrow> BaseRoute \<Rightarrow> BaseRoute" where
  "apply_route_options [] r = r"
| "apply_route_options (opt # opts) r = apply_route_options opts (opt r)"

text \<open>
  Modelled from the spec: \<^verbatim>\<open>fuego.Use\<close>, which is missing. The middleware is appended
  after the middleware registered before (section 4.5).
\<close>

definition Use :: "Server \<Rightarrow> Middleware list \<Rightarrow> Server" where
  "Use s mws = s\<lparr>middlewares := middlewares s @ mws\<rparr>"

text \<open>
  Modelled from the spec: the composition of a handler with a list of middlewares,
  which is missing. An earlier entry wraps outside a later one (section 4.5).
\<close>

fun withMiddlewares :: "Handler \<Rightarrow> Middleware list \<Rightarrow> Handler" where
  "withMiddlewares h [] = h"
| "withMiddlewares h (m # ms) = m (withMiddlewares h ms)"

text \<open>
  Modelled from the spec: \<^verbatim>\<open>fuego.Register\<close>, which is missing (section 4.4). The
  options are applied in call order; the route is registered at
  \<^verbatim>\<open>basePath + path\<close>; the controller is wrapped by the server's middleware and,
  innermost, by the route's middleware; registering a pair of method and path that the
  mux already holds is fatal; the operation is appended to the specification, keyed by
  path and method, unless the route is hidden. Method and path of a route are those
  given to \<^verbatim>\<open>Register\<close>, whatever the options do (section 3).
\<close>

definition Register ::
  "Server \<Rightarrow> string \<Rightarrow> string \<Rightarrow> Controller \<Rightarrow> (BaseRoute \<Rightarrow> BaseRoute) list
     \<Rightarrow> panic + Server \<times> BaseRoute" where
  "Register s method path controller options =
     (let route = (apply_route_options options (newRoute method path))
                     \<lparr>Method := method, Path := basePath s @ path\<rparr>;
          key = (method, basePath s @ path)
      in if key \<in> fst ` set (Mux s)
         then Inl (Panic ''pattern conflicts with an already registered pattern'')
         else Inr (s\<lparr>Mux := Mux s @
                       [(key, withMiddlewares (HTTPHandler controller)
                                (middlewares s @ Middlewares route))],
                     specPaths := (if Hidden route then specPaths s
                                   else specPaths s @ [(key, RouteOperation route)])\<rparr>,
                   route))"

text \<open>
  Modelled from the spec: the dispatch of a request to the handler registered for its
  method and path (\<^verbatim>\<open>s.Mux.ServeHTTP(w, r)\<close> in the tests; the mux is the library's), for
  paths without placeholders. Without a handler the answer is 404.
\<close>

definition ServeHTTP :: "Server \<Rightarrow> Handler" where
  "ServeHTTP s x =
     (case map_of (Mux s) (reqMethod x, reqPath x) of
        None \<Rightarrow> x\<lparr>respCode := 404\<rparr>
      | Some h \<Rightarrow> h x)"




text \<open>
  Every operation of the specification belongs to a registered route: true of a new
  server and kept by \<open>Register\<close>.
\<close>

definition spec_within_mux :: "Server \<Rightarrow> bool" where
  "spec_within_mux s = (fst ` set (specPaths s) \<subseteq> fst ` set (Mux s))"

section \<open>Theorems: tag lists\<close>

lemma removeTag_scan_eq:
  "removeTag_scan rest (length pre) t (pre @ rest) = Inr (pre @ without_first t rest)"
proof (induction rest arbitrary: pre)
  case Nil
  then show ?case by (simp add: without_first_def)
next
  case (Cons x rest)
  show ?case
  proof (cases "x = t")
    case True
    then show ?thesis by (simp add: slices_Delete_def without_first_def)
  next
    case False
    have "removeTag_scan rest (length (pre @ [x])) t ((pre @ [x]) @ rest)
          = Inr ((pre @ [x]) @ without_first t rest)"
      by (rule Cons.IH)
    with False show ?thesis by (simp add: without_first_def)
  qed
qed

lemma removeTag_scan_whole: "removeTag_scan xs 0 t xs = Inr (without_first t xs)"
  using removeTag_scan_eq [of xs "[]" t] by simp

lemma removeTags_loop_Cons:
  "removeTags_loop (t # ts) xs = removeTags_loop ts (without_first t xs)"
  by (simp add: removeTag_scan_whole)

lemma removeTags_loop_single: "removeTags_loop [t] xs = Inr (without_first t xs)"
  by (simp add: removeTag_scan_whole)

lemma without_first_remove1: "without_first t xs = remove1 t xs"
  by (induction xs) (auto simp: without_first_def)

lemma removeTags_loop_fold: "removeTags_loop ts xs = Inr (fold remove1 ts xs)"
  by (induction ts arbitrary: xs) (simp_all add: removeTag_scan_whole without_first_remove1)







section \<open>Theorems: server construction and options\<close>

lemma apply_options_append:
  "apply_options (xs @ ys) s =
     (case apply_options xs s of Inl e \<Rightarrow> Inl e | Inr s' \<Rightarrow> apply_options ys s')"
  by (induction xs arbitrary: s) (simp_all split: sum.split)

lemma apply_defaultOptions:
  "apply_options defaultOptions initialServer =
     Inr (initialServer\<lparr>DisallowUnknownFields := True,
            Serialize := Some (GoFunc ''Send''),
            SerializeError := Some (GoFunc ''SendError''),
            ErrorHandler := Some (GoFunc ''ErrorHandler''),
            globalOpenAPIResponses :=
              [(400, ''Bad Request _(validation or deserialization error)_'', ''HTTPError''),
               (500, ''Internal Server Error _(panics)_'', ''HTTPError'')]\<rparr>)"
  by (simp add: defaultOptions_def initialServer_def WithDisallowUnknownFields_def
      WithSerializer_def WithErrorSerializer_def WithErrorHandler_def
      WithGlobalResponseTypes_def)

lemma defaultOptions_state:
  "\<exists>s1. apply_options defaultOptions initialServer = Inr s1
     \<and> OpenAPIConfig s1 = defaultOpenAPIConfig
     \<and> Addr s1 = [] \<and> listener s1 = None \<and> \<not> autoAuthEnabled s1"
  unfolding apply_defaultOptions by (simp add: initialServer_def)

lemma finishServer_fresh:
  assumes "Addr s = []" "listener s = None" "\<not> autoAuthEnabled s"
  shows "finishServer proto authRoutes s =
     Inr (s\<lparr>Addr := ''localhost:9999'',
            specServers := specServers s @
              [(proto (s\<lparr>Addr := ''localhost:9999''\<rparr>) @ ''://'' @ ''localhost:9999'', ''local server'')]\<rparr>)"
  using assms by (simp add: finishServer_def WithAddr_def Let_def)

text \<open>
  C9. \<open>NewServer\<close> with no user option returns a server (it does not panic) whose
  \<open>DisallowUnknownFields\<close> is true and whose serializer, error serializer and error
  handler are the non-nil defaults \<^verbatim>\<open>Send\<close>, \<^verbatim>\<open>SendError\<close> and \<^verbatim>\<open>ErrorHandler\<close>.
  These four fields are set by the default options, which run before every user option:
  for any list of user options, \<open>NewServer\<close> is the run of the user options, and then of
  the rest of the constructor, from the state the default options leave.
\<close>

theorem NewServer_default_options:
  "(\<exists>s. NewServer proto authRoutes [] = Inr s
        \<and> DisallowUnknownFields s = True
        \<and> Serialize s = Some (GoFunc ''Send'') \<and> Serialize s \<noteq> None
        \<and> SerializeError s = Some (GoFunc ''SendError'') \<and> SerializeError s \<noteq> None
        \<and> ErrorHandler s = Some (GoFunc ''ErrorHandler'') \<and> ErrorHandler s \<noteq> None)
   \<and> (\<exists>s1. apply_options defaultOptions initialServer = Inr s1
        \<and> DisallowUnknownFields s1 = True
        \<and> Serialize s1 = Some (GoFunc ''Send'')
        \<and> SerializeError s1 = Some (GoFunc ''SendError'')
        \<and> ErrorHandler s1 = Some (GoFunc ''ErrorHandler'')
        \<and> (\<forall>options. NewServer proto authRoutes options =
              (case apply_options options s1 of
                 Inl e \<Rightarrow> Inl e
               | Inr s \<Rightarrow> finishServer proto authRoutes s)))"
proof -
  define s1 where "s1 = initialServer\<lparr>DisallowUnknownFields := True,
            Serialize := Some (GoFunc ''Send''),
            SerializeError := Some (GoFunc ''SendError''),
            ErrorHandler := Some (GoFunc ''ErrorHandler''),
            globalOpenAPIResponses :=
              [(400, ''Bad Request _(validation or deserialization error)_'', ''HTTPError''),
               (500, ''Internal Server Error _(panics)_'', ''HTTPError'')]\<rparr>"
  have d: "apply_options defaultOptions initialServer = Inr s1"
    by (simp add: apply_defaultOptions s1_def)
  have fields: "DisallowUnknownFields s1 = True" "Serialize s1 = Some (GoFunc ''Send'')"
    "SerializeError s1 = Some (GoFunc ''SendError'')"
    "ErrorHandler s1 = Some (GoFunc ''ErrorHandler'')"
    by (simp_all add: s1_def)
  have fresh: "Addr s1 = []" "listener s1 = None" "\<not> autoAuthEnabled s1"
    by (simp_all add: s1_def initialServer_def)
  have run: "NewServer proto authRoutes options =
              (case apply_options options s1 of
                 Inl e \<Rightarrow> Inl e
               | Inr s \<Rightarrow> finishServer proto authRoutes s)" for options
    by (simp add: NewServer_def apply_options_append d)
  have "NewServer proto authRoutes [] = finishServer proto authRoutes s1"
    by (simp add: run)
  also have "\<dots> = Inr (s1\<lparr>Addr := ''localhost:9999'',
            specServers := specServers s1 @
              [(proto (s1\<lparr>Addr := ''localhost:9999''\<rparr>) @ ''://'' @ ''localhost:9999'', ''local server'')]\<rparr>)"
    by (rule finishServer_fresh [OF fresh])
  finally have first: "\<exists>s. NewServer proto authRoutes [] = Inr s
        \<and> DisallowUnknownFields s = True
        \<and> Serialize s = Some (GoFunc ''Send'') \<and> Serialize s \<noteq> None
        \<and> SerializeError s = Some (GoFunc ''SendError'') \<and> SerializeError s \<noteq> None
        \<and> ErrorHandler s = Some (GoFunc ''ErrorHandler'') \<and> ErrorHandler s \<noteq> None"
    by (simp add: fields)
  from d fields run have second: "\<exists>s1. apply_options defaultOptions initialServer = Inr s1
        \<and> DisallowUnknownFields s1 = True
        \<and> Serialize s1 = Some (GoFunc ''Send'')
        \<and> SerializeError s1 = Some (GoFunc ''SendError'')
        \<and> ErrorHandler s1 = Some (GoFunc ''ErrorHandler'')
        \<and> (\<forall>options. NewServer proto authRoutes options =
              (case apply_options options s1 of
                 Inl e \<Rightarrow> Inl e
               | Inr s \<Rightarrow> finishServer proto authRoutes s))"
    by blast
  from first second show ?thesis by (rule conjI)
qed

lemma WithOpenAPIConfig_result:
  "WithOpenAPIConfig vJson vSwagger cfg s =
     Inr (s\<lparr>OpenAPIConfig :=
             \<lparr>DisableSwagger = DisableSwagger cfg, DisableSwaggerUI = DisableSwaggerUI cfg,
              DisableLocalSave = DisableLocalSave cfg,
              SwaggerUrl = (if SwaggerUrl cfg \<noteq> [] then SwaggerUrl cfg else SwaggerUrl (OpenAPIConfig s)),
              UIHandler = (if UIHandler cfg \<noteq> None then UIHandler cfg else UIHandler (OpenAPIConfig s)),
              JsonUrl = (if JsonUrl cfg \<noteq> [] then JsonUrl cfg else JsonUrl (OpenAPIConfig s)),
              JsonFilePath = (if JsonFilePath cfg \<noteq> [] then JsonFilePath cfg
                              else JsonFilePath (OpenAPIConfig s)),
              PrettyFormatJson = PrettyFormatJson cfg\<rparr>,
           slog := slog s @
             (if \<not> vJson (if JsonUrl cfg \<noteq> [] then JsonUrl cfg else JsonUrl (OpenAPIConfig s))
              then [msgJsonSpecUrl]
              else if \<not> vSwagger (if SwaggerUrl cfg \<noteq> [] then SwaggerUrl cfg
                                   else SwaggerUrl (OpenAPIConfig s))
              then [msgSwaggerUrl]
              else [])\<rparr>)"
proof -
  obtain a b c d e f g h where c0: "OpenAPIConfig s =
      \<lparr>DisableSwagger = a, DisableSwaggerUI = b, DisableLocalSave = c, SwaggerUrl = d,
       UIHandler = e, JsonUrl = f, JsonFilePath = g, PrettyFormatJson = h\<rparr>"
    by (cases "OpenAPIConfig s") auto
  show ?thesis
    unfolding WithOpenAPIConfig_def Let_def c0
    by (cases "JsonUrl cfg = []"; cases "SwaggerUrl cfg = []"; cases "JsonFilePath cfg = []";
        cases "UIHandler cfg = None") simp_all
qed

lemma WithOpenAPIConfig_options_go_result:
  "WithOpenAPIConfig_options_go vPath vJson vSwagger cfg s =
     Inr (s\<lparr>OpenAPIConfig :=
             cfg\<lparr>JsonUrl := (if JsonUrl cfg = [] then ''/swagger/openapi.json'' else JsonUrl cfg),
                 SwaggerUrl := (if SwaggerUrl cfg = [] then ''/swagger'' else SwaggerUrl cfg),
                 JsonFilePath := (if JsonFilePath cfg = [] then ''doc/openapi.json''
                                  else JsonFilePath cfg)\<rparr>,
           slog := slog s @
             (if \<not> vPath (if JsonFilePath cfg = [] then ''doc/openapi.json'' else JsonFilePath cfg)
              then [msgJsonSpecLocalPath]
              else if \<not> vJson (if JsonUrl cfg = [] then ''/swagger/openapi.json'' else JsonUrl cfg)
              then [msgJsonSpecUrl]
              else if \<not> vSwagger (if SwaggerUrl cfg = [] then ''/swagger'' else SwaggerUrl cfg)
              then [msgSwaggerUrl]
              else [])\<rparr>)"
proof -
  obtain a b c d e f g h where c0: "cfg =
      \<lparr>DisableSwagger = a, DisableSwaggerUI = b, DisableLocalSave = c, SwaggerUrl = d,
       UIHandler = e, JsonUrl = f, JsonFilePath = g, PrettyFormatJson = h\<rparr>"
    by (cases cfg) auto
  show ?thesis
    unfolding WithOpenAPIConfig_options_go_def Let_def c0 defaultOpenAPIConfig_def
    by (cases "f = []"; cases "d = []"; cases "g = []") simp_all
qed

text \<open>
  C8, as stated, fails on \<^verbatim>\<open>WithOpenAPIConfig\<close> of server.go, at two places. Empty
  fields are not replaced by the defaults but keep the server's current value: after
  an option that sets the JSON URL to \<^verbatim>\<open>/api/openapi.json\<close>, the option with the empty
  configuration \<^verbatim>\<open>OpenAPIConfig{}\<close> leaves \<^verbatim>\<open>/api/openapi.json\<close>. And the local file
  path is not checked: with a file path that the check of options.go rejects (here a
  check that rejects every path) and valid URLs, nothing is logged, where the option of
  options.go logs.
\<close>

theorem WithOpenAPIConfig_counterexample:
  "(case apply_options
       [WithOpenAPIConfig (\<lambda>u. True) (\<lambda>u. True)
          \<lparr>DisableSwagger = False, DisableSwaggerUI = False, DisableLocalSave = False,
           SwaggerUrl = [], UIHandler = None, JsonUrl = ''/api/openapi.json'',
           JsonFilePath = [], PrettyFormatJson = False\<rparr>,
        WithOpenAPIConfig (\<lambda>u. True) (\<lambda>u. True)
          \<lparr>DisableSwagger = False, DisableSwaggerUI = False, DisableLocalSave = False,
           SwaggerUrl = [], UIHandler = None, JsonUrl = [],
           JsonFilePath = [], PrettyFormatJson = False\<rparr>] initialServer of
      Inl e \<Rightarrow> False
    | Inr s \<Rightarrow> JsonUrl (OpenAPIConfig s) = ''/api/openapi.json''
               \<and> JsonUrl (OpenAPIConfig s) \<noteq> ''/swagger/openapi.json'')
   \<and> (case WithOpenAPIConfig (\<lambda>u. True) (\<lambda>u. True)
          \<lparr>DisableSwagger = False, DisableSwaggerUI = False, DisableLocalSave = False,
           SwaggerUrl = ''/api'', UIHandler = None, JsonUrl = ''/api/openapi.json'',
           JsonFilePath = ''path/to/jsonSpec'', PrettyFormatJson = False\<rparr> initialServer of
         Inl e \<Rightarrow> False
       | Inr s \<Rightarrow> slog s = [] \<and> JsonFilePath (OpenAPIConfig s) = ''path/to/jsonSpec'')
   \<and> (case WithOpenAPIConfig_options_go (\<lambda>p. False) (\<lambda>u. True) (\<lambda>u. True)
          \<lparr>DisableSwagger = False, DisableSwaggerUI = False, DisableLocalSave = False,
           SwaggerUrl = ''/api'', UIHandler = None, JsonUrl = ''/api/openapi.json'',
           JsonFilePath = ''path/to/jsonSpec'', PrettyFormatJson = False\<rparr> initialServer of
         Inl e \<Rightarrow> False
       | Inr s \<Rightarrow> slog s = [msgJsonSpecLocalPath])"
  by (simp add: WithOpenAPIConfig_result WithOpenAPIConfig_options_go_result initialServer_def
      defaultOpenAPIConfig_def)

text \<open>
  C8, amended. \<^verbatim>\<open>WithOpenAPIConfig\<close> of server.go never panics. It copies every non-empty
  URL or path field of its argument over the server's configuration and keeps the
  server's current value for an empty field; on a server under construction that no
  earlier option has configured these current values are the defaults \<^verbatim>\<open>/swagger\<close>,
  \<^verbatim>\<open>/swagger/openapi.json\<close> and \<^verbatim>\<open>doc/openapi.json\<close>. It then checks the spec-JSON
  URL and, when that passes, the Swagger UI URL; the local file path is not checked.
  When a check fails it logs one error and returns; all other fields of the server are
  as they were, and \<open>NewServer\<close> with this one option still returns a server. The
  earlier revision in options.go does what the claim says: it never panics either,
  replaces empty fields by the three defaults, and checks the local file path, then the
  JSON URL, then the Swagger URL, logging the first failure.
\<close>

theorem WithOpenAPIConfig_merges_and_validates_urls:
  "(\<exists>s'. WithOpenAPIConfig vJson vSwagger cfg s = Inr s'
      \<and> JsonUrl (OpenAPIConfig s') = (if JsonUrl cfg \<noteq> [] then JsonUrl cfg else JsonUrl (OpenAPIConfig s))
      \<and> SwaggerUrl (OpenAPIConfig s') =
            (if SwaggerUrl cfg \<noteq> [] then SwaggerUrl cfg else SwaggerUrl (OpenAPIConfig s))
      \<and> JsonFilePath (OpenAPIConfig s') =
            (if JsonFilePath cfg \<noteq> [] then JsonFilePath cfg else JsonFilePath (OpenAPIConfig s))
      \<and> slog s' = slog s @
            (if \<not> vJson (JsonUrl (OpenAPIConfig s')) then [msgJsonSpecUrl]
             else if \<not> vSwagger (SwaggerUrl (OpenAPIConfig s')) then [msgSwaggerUrl]
             else [])
      \<and> s'\<lparr>OpenAPIConfig := OpenAPIConfig s, slog := slog s\<rparr> = s)
   \<and> (\<exists>s'. NewServer proto authRoutes [WithOpenAPIConfig vJson vSwagger cfg] = Inr s'
      \<and> JsonUrl (OpenAPIConfig s') = (if JsonUrl cfg \<noteq> [] then JsonUrl cfg else ''/swagger/openapi.json'')
      \<and> SwaggerUrl (OpenAPIConfig s') = (if SwaggerUrl cfg \<noteq> [] then SwaggerUrl cfg else ''/swagger'')
      \<and> JsonFilePath (OpenAPIConfig s') =
            (if JsonFilePath cfg \<noteq> [] then JsonFilePath cfg else ''doc/openapi.json''))
   \<and> (\<exists>s'. WithOpenAPIConfig_options_go vPath vJson vSwagger cfg s = Inr s'
      \<and> JsonUrl (OpenAPIConfig s') = (if JsonUrl cfg = [] then ''/swagger/openapi.json'' else JsonUrl cfg)
      \<and> SwaggerUrl (OpenAPIConfig s') = (if SwaggerUrl cfg = [] then ''/swagger'' else SwaggerUrl cfg)
      \<and> JsonFilePath (OpenAPIConfig s') =
            (if JsonFilePath cfg = [] then ''doc/openapi.json'' else JsonFilePath cfg)
      \<and> slog s' = slog s @
            (if \<not> vPath (JsonFilePath (OpenAPIConfig s')) then [msgJsonSpecLocalPath]
             else if \<not> vJson (JsonUrl (OpenAPIConfig s')) then [msgJsonSpecUrl]
             else if \<not> vSwagger (SwaggerUrl (OpenAPIConfig s')) then [msgSwaggerUrl]
             else []))"
proof (intro conjI)
  show "\<exists>s'. WithOpenAPIConfig vJson vSwagger cfg s = Inr s'
      \<and> JsonUrl (OpenAPIConfig s') = (if JsonUrl cfg \<noteq> [] then JsonUrl cfg else JsonUrl (OpenAPIConfig s))
      \<and> SwaggerUrl (OpenAPIConfig s') =
            (if SwaggerUrl cfg \<noteq> [] then SwaggerUrl cfg else SwaggerUrl (OpenAPIConfig s))
      \<and> JsonFilePath (OpenAPIConfig s') =
            (if JsonFilePath cfg \<noteq> [] then JsonFilePath cfg else JsonFilePath (OpenAPIConfig s))
      \<and> slog s' = slog s @
            (if \<not> vJson (JsonUrl (OpenAPIConfig s')) then [msgJsonSpecUrl]
             else if \<not> vSwagger (SwaggerUrl (OpenAPIConfig s')) then [msgSwaggerUrl]
             else [])
      \<and> s'\<lparr>OpenAPIConfig := OpenAPIConfig s, slog := slog s\<rparr> = s"
    by (simp add: WithOpenAPIConfig_result)
next
  obtain s1 where d: "apply_options defaultOptions initialServer = Inr s1"
    and c: "OpenAPIConfig s1 = defaultOpenAPIConfig"
    and fresh: "Addr s1 = []" "listener s1 = None" "\<not> autoAuthEnabled s1"
    using defaultOptions_state by blast
  obtain s2 where o: "WithOpenAPIConfig vJson vSwagger cfg s1 = Inr s2"
    and f: "JsonUrl (OpenAPIConfig s2) = (if JsonUrl cfg \<noteq> [] then JsonUrl cfg else ''/swagger/openapi.json'')"
      "SwaggerUrl (OpenAPIConfig s2) = (if SwaggerUrl cfg \<noteq> [] then SwaggerUrl cfg else ''/swagger'')"
      "JsonFilePath (OpenAPIConfig s2) =
         (if JsonFilePath cfg \<noteq> [] then JsonFilePath cfg else ''doc/openapi.json'')"
    and fresh2: "Addr s2 = []" "listener s2 = None" "\<not> autoAuthEnabled s2"
    using c fresh by (simp add: WithOpenAPIConfig_result defaultOpenAPIConfig_def)
  have "NewServer proto authRoutes [WithOpenAPIConfig vJson vSwagger cfg] =
          finishServer proto authRoutes s2"
    by (simp add: NewServer_def apply_options_append d o)
  with f show "\<exists>s'. NewServer proto authRoutes [WithOpenAPIConfig vJson vSwagger cfg] = Inr s'
      \<and> JsonUrl (OpenAPIConfig s') = (if JsonUrl cfg \<noteq> [] then JsonUrl cfg else ''/swagger/openapi.json'')
      \<and> SwaggerUrl (OpenAPIConfig s') = (if SwaggerUrl cfg \<noteq> [] then SwaggerUrl cfg else ''/swagger'')
      \<and> JsonFilePath (OpenAPIConfig s') =
            (if JsonFilePath cfg \<noteq> [] then JsonFilePath cfg else ''doc/openapi.json'')"
    by (simp add: finishServer_fresh [OF fresh2])
next
  show "\<exists>s'. WithOpenAPIConfig_options_go vPath vJson vSwagger cfg s = Inr s'
      \<and> JsonUrl (OpenAPIConfig s') = (if JsonUrl cfg = [] then ''/swagger/openapi.json'' else JsonUrl cfg)
      \<and> SwaggerUrl (OpenAPIConfig s') = (if SwaggerUrl cfg = [] then ''/swagger'' else SwaggerUrl cfg)
      \<and> JsonFilePath (OpenAPIConfig s') =
            (if JsonFilePath cfg = [] then ''doc/openapi.json'' else JsonFilePath cfg)
      \<and> slog s' = slog s @
            (if \<not> vPath (JsonFilePath (OpenAPIConfig s')) then [msgJsonSpecLocalPath]
             else if \<not> vJson (JsonUrl (OpenAPIConfig s')) then [msgJsonSpecUrl]
             else if \<not> vSwagger (SwaggerUrl (OpenAPIConfig s')) then [msgSwaggerUrl]
             else [])"
    by (simp add: WithOpenAPIConfig_options_go_result)
qed

section \<open>Theorems: schema synthesis\<close>

subsection \<open>The body of ToSchema, by the form of the value\<close>

lemma schema_of_VNil:
  "schema_of VNil = Inl (Panic ''reflect: call of reflect.Value.Interface on zero Value'')"
  by (simp add: schema_of.simps)

lemma schema_of_VBasic: "schema_of (VBasic k n) = Inr (kind_type (VBasic k n) newSchema)"
  by (simp add: schema_of.simps)

lemma schema_of_VTime: "schema_of (VTime t) = Inr (time_schema newSchema t)"
  by (simp add: schema_of.simps)

lemma schema_of_VStruct: "schema_of (VStruct n fs) = struct_fields fs newSchema"
  by (simp add: schema_of.simps split: sum.split)

lemma schema_of_VSlice:
  "schema_of (VSlice n t) =
     (case ToSchema (reflect_New (deref_type t)) of
        Inl e \<Rightarrow> Inl e
      | Inr items \<Rightarrow> Inr (set_Items (set_Type newSchema ''array'') items))"
  by (simp add: schema_of.simps split: sum.split)

lemma schema_of_VPtrNil: "schema_of (VPtrNil n) = Inr (kind_type (VPtrNil n) newSchema)"
  by (simp add: schema_of.simps)

lemma schema_of_VPtr: "schema_of (VPtr n v) = Inr (kind_type (VPtr n v) newSchema)"
  by (simp add: schema_of.simps)

lemma schema_of_VIface:
  "schema_of (VIface n v) =
     (case asTime v of
        Some t \<Rightarrow> Inr (time_schema newSchema t)
      | None \<Rightarrow> Inr (kind_type (VIface n v) newSchema))"
  by (simp add: schema_of.simps split: option.split)

lemmas schema_of_forms = schema_of_VNil schema_of_VBasic schema_of_VTime schema_of_VStruct
  schema_of_VSlice schema_of_VPtrNil schema_of_VPtr schema_of_VIface

lemma ToSchema_VNil: "ToSchema VNil = Inr None"
  by (simp add: ToSchema.simps)

lemma ToSchema_not_nil:
  "v \<noteq> VNil \<Longrightarrow>
   ToSchema v = (case schema_of (deref_value v) of Inl e \<Rightarrow> Inl e | Inr s \<Rightarrow> Inr (Some s))"
  by (simp add: ToSchema.simps)

lemma ToSchema_VPtr:
  "v \<noteq> VNil \<Longrightarrow> (\<forall>m w. v \<noteq> VPtr m w) \<Longrightarrow> (\<forall>m. v \<noteq> VPtrNil m) \<Longrightarrow> ToSchema (VPtr n v) = ToSchema v"
  by (cases v) (simp_all add: ToSchema.simps)

lemma ToSchema_Kind_Struct:
  assumes "Kind field = Struct"
  shows "ToSchema field = (case schema_of field of Inl e \<Rightarrow> Inl e | Inr s \<Rightarrow> Inr (Some s))"
  using assms by (cases field) (simp_all add: ToSchema.simps)

subsection \<open>The loop over the fields\<close>

lemma struct_fields_struct_field:
  assumes "Kind field = Struct"
  shows "struct_fields ((fieldType, field) # rest) s =
     (if \<not> Exported fieldType
      then Inl (Panic ''reflect.Value.Interface: cannot return value obtained from unexported field or method'')
      else (case ToSchema field of
              Inl e \<Rightarrow> Inl e
            | Inr None \<Rightarrow> Inl (Panic ''invalid memory address or nil pointer dereference'')
            | Inr (Some x) \<Rightarrow> struct_fields rest (set_Property s (fieldName_of fieldType) x)))"
  using assms by simp

lemma struct_fields_returns:
  "(\<exists>s'. struct_fields fs s = Inr s') \<longleftrightarrow> fields_readable fs"
proof (induction fs arbitrary: s)
  case Nil
  show ?case by (simp add: fields_readable_def)
next
  case (Cons p fs)
  obtain ft f where p: "p = (ft, f)" by (cases p)
  have tail: "fields_readable ((ft, f) # fs) \<longleftrightarrow>
      (Kind f = Struct \<longrightarrow> Exported ft \<and> (case ToSchema f of Inr (Some x) \<Rightarrow> True | _ \<Rightarrow> False))
      \<and> fields_readable fs"
    by (simp add: fields_readable_def)
  show ?case
  proof (cases "Kind f = Struct")
    case False
    then show ?thesis using Cons.IH [of "basic_field ft f s"] by (simp add: p tail)
  next
    case True
    show ?thesis
    proof (cases "ToSchema f")
      case (Inl e)
      with True show ?thesis by (simp add: p tail)
    next
      case (Inr r)
      show ?thesis
      proof (cases r)
        case None
        with True Inr show ?thesis by (simp add: p tail)
      next
        case (Some x)
        with True Inr show ?thesis
          using Cons.IH [of "set_Property s (fieldName_of ft) x"] by (simp add: p tail)
      qed
    qed
  qed
qed

lemma map_add_rev_Cons:
  "m ++ map_of (rev ((k, x) # es)) = (m(k \<mapsto> x)) ++ map_of (rev es)"
proof -
  have "m ++ map_of (rev ((k, x) # es)) = m ++ ([k \<mapsto> x] ++ map_of (rev es))"
    by (simp add: map_of_append)
  also have "\<dots> = (m ++ [k \<mapsto> x]) ++ map_of (rev es)"
    by (simp only: map_add_assoc)
  finally show ?thesis by simp
qed

lemma struct_fields_result:
  assumes "struct_fields fs s = Inr s'"
  shows "Type s' = Type s \<and> Format s' = Format s \<and> Example s' = Example s \<and> Items s' = Items s
     \<and> Required s' = Required s @ required_basic_names fs
     \<and> Properties s' = Properties s ++ map_of (rev (map field_entry fs))"
  using assms
proof (induction fs arbitrary: s)
  case Nil
  then show ?case by (simp add: required_basic_names_def)
next
  case (Cons p fs)
  obtain ft f where p: "p = (ft, f)" by (cases p)
  show ?case
  proof (cases "Kind f = Struct")
    case False
    with Cons.prems have run: "struct_fields fs (basic_field ft f s) = Inr s'"
      by (simp add: p)
    have b: "Type (basic_field ft f s) = Type s" "Format (basic_field ft f s) = Format s"
      "Example (basic_field ft f s) = Example s" "Items (basic_field ft f s) = Items s"
      "Required (basic_field ft f s) = Required s @ (if marked_required ft then [fieldName_of ft] else [])"
      by (simp_all add: basic_field_def Let_def set_Property_def set_Required_def)
    have bp: "Properties (basic_field ft f s) = (Properties s)(fieldName_of ft \<mapsto> basic_schema ft f)"
      by (simp add: basic_field_def Let_def set_Property_def set_Required_def)
    have e: "map field_entry (p # fs) = (fieldName_of ft, basic_schema ft f) # map field_entry fs"
      using False by (simp add: field_entry_def p)
    have r: "required_basic_names (p # fs) =
        (if marked_required ft then [fieldName_of ft] else []) @ required_basic_names fs"
      using False by (simp add: required_basic_names_def p)
    have props: "Properties s' = Properties s ++ map_of (rev (map field_entry (p # fs)))"
      using Cons.IH [OF run] by (simp only: e map_add_rev_Cons bp)
    from Cons.IH [OF run] have "Type s' = Type s \<and> Format s' = Format s \<and> Example s' = Example s
       \<and> Items s' = Items s \<and> Required s' = Required s @ required_basic_names (p # fs)"
      by (simp add: b r)
    with props show ?thesis by simp
  next
    case True
    with Cons.prems obtain x where x: "ToSchema f = Inr (Some x)"
      and run: "struct_fields fs (set_Property s (fieldName_of ft) x) = Inr s'"
      by (auto simp: p split: if_splits sum.splits option.splits)
    have b: "Type (set_Property s (fieldName_of ft) x) = Type s"
      "Format (set_Property s (fieldName_of ft) x) = Format s"
      "Example (set_Property s (fieldName_of ft) x) = Example s"
      "Items (set_Property s (fieldName_of ft) x) = Items s"
      "Required (set_Property s (fieldName_of ft) x) = Required s"
      by (simp_all add: set_Property_def)
    have bp: "Properties (set_Property s (fieldName_of ft) x) = (Properties s)(fieldName_of ft \<mapsto> x)"
      by (simp add: set_Property_def)
    have e: "map field_entry (p # fs) = (fieldName_of ft, x) # map field_entry fs"
      using True x by (simp add: field_entry_def nested_schema_def p)
    have r: "required_basic_names (p # fs) = required_basic_names fs"
      using True by (simp add: required_basic_names_def p)
    have props: "Properties s' = Properties s ++ map_of (rev (map field_entry (p # fs)))"
      using Cons.IH [OF run] by (simp only: e map_add_rev_Cons bp)
    from Cons.IH [OF run] have "Type s' = Type s \<and> Format s' = Format s \<and> Example s' = Example s
       \<and> Items s' = Items s \<and> Required s' = Required s @ required_basic_names (p # fs)"
      by (simp add: b r)
    with props show ?thesis by simp
  qed
qed

subsection \<open>Schemas of structs\<close>

lemmas ToSchema_eval = ToSchema_not_nil schema_of_forms kind_type_def newSchema_def set_Type_def
  set_Format_def set_Example_def set_Items_def set_Property_def set_Required_def time_schema_def
  basic_field_def basic_schema_def fieldName_of_def Tag_Get_def marked_required_def Let_def
  reflect_New_def

lemma ToSchema_VStruct:
  "ToSchema (VStruct n fs) =
     (case struct_fields fs newSchema of Inl e \<Rightarrow> Inl e | Inr s \<Rightarrow> Inr (Some s))"
  by (simp add: ToSchema_not_nil schema_of_VStruct)

lemma ToSchema_VStruct_returns:
  "(\<exists>r. ToSchema (VStruct n fs) = Inr r) \<longleftrightarrow> fields_readable fs"
proof -
  have "(\<exists>r. ToSchema (VStruct n fs) = Inr r) \<longleftrightarrow> (\<exists>s. struct_fields fs newSchema = Inr s)"
    by (cases "struct_fields fs newSchema") (simp_all add: ToSchema_VStruct)
  then show ?thesis by (simp only: struct_fields_returns)
qed

lemma ToSchema_VStruct_result:
  assumes "fields_readable fs"
  shows "\<exists>s. ToSchema (VStruct n fs) = Inr (Some s) \<and> Type s = ''object'' \<and> Format s = []
     \<and> Example s = [] \<and> Items s = None \<and> Required s = required_basic_names fs
     \<and> Properties s = map_of (rev (map field_entry fs))"
proof -
  from assms obtain s where s: "struct_fields fs newSchema = Inr s"
    using struct_fields_returns [of fs newSchema] by blast
  have "ToSchema (VStruct n fs) = Inr (Some s)"
    by (simp add: ToSchema_VStruct s)
  moreover from struct_fields_result [OF s]
  have "Type s = ''object'' \<and> Format s = [] \<and> Example s = [] \<and> Items s = None
     \<and> Required s = required_basic_names fs
     \<and> Properties s = map_of (rev (map field_entry fs))"
    by (simp add: newSchema_def)
  ultimately show ?thesis by blast
qed

lemma fields_readable_nested:
  assumes "fields_readable fs" "p \<in> set fs" "Kind (snd p) = Struct"
  shows "ToSchema (snd p) = Inr (Some (nested_schema (snd p)))"
proof -
  from assms have "case ToSchema (snd p) of Inr (Some x) \<Rightarrow> True | _ \<Rightarrow> False"
    by (auto simp: fields_readable_def list_all_iff)
  then show ?thesis
    by (auto simp: nested_schema_def split: sum.splits option.splits)
qed

text \<open>
  The required list of the schema of a struct holds the names of the fields marked
  required whose kind is not struct, in the order of declaration, and this holds for
  the schema stored for a nested struct as well.
\<close>

lemma ToSchema_struct_required_basic:
  assumes "fields_readable fs"
  shows "\<exists>s. ToSchema (VStruct n fs) = Inr (Some s) \<and> Required s = required_basic_names fs"
  using ToSchema_VStruct_result [OF assms, of n] by blast

text \<open>
  C1 fails on the code: the name of a field marked required is appended to
  \<^verbatim>\<open>s.Required\<close> only in the \<^verbatim>\<open>else\<close> branch of the loop, for the fields whose kind is
  not struct. For \<^verbatim>\<open>type Meeting struct { Start time.Time `json:"start" validate:"required"`;
  Title string `json:"title" validate:"required"` }\<close> the fields marked required are
  \<^verbatim>\<open>start\<close> and \<^verbatim>\<open>title\<close>, and the required list of the schema is \<^verbatim>\<open>title\<close> alone. The
  same happens to a nested struct marked required.
\<close>

theorem ToSchema_required_misses_struct_fields:
  "required_names
       [(\<lparr>Name = ''Start'', Tag = [(''json'', ''start''), (''validate'', ''required'')], Exported = True\<rparr>,
         VTime ''0001-01-01T00:00:00Z''),
        (\<lparr>Name = ''Title'', Tag = [(''json'', ''title''), (''validate'', ''required'')], Exported = True\<rparr>,
         VBasic String ''string'')] = [''start'', ''title'']
   \<and> ToSchema (VStruct ''Meeting''
       [(\<lparr>Name = ''Start'', Tag = [(''json'', ''start''), (''validate'', ''required'')], Exported = True\<rparr>,
         VTime ''0001-01-01T00:00:00Z''),
        (\<lparr>Name = ''Title'', Tag = [(''json'', ''title''), (''validate'', ''required'')], Exported = True\<rparr>,
         VBasic String ''string'')])
     = Inr (Some (Schema ''object'' [] [''title''] []
        [''start'' \<mapsto> Schema ''string'' ''date-time'' [] ''0001-01-01T00:00:00Z'' Map.empty None,
         ''title'' \<mapsto> Schema ''string'' [] [] [] Map.empty None] None))
   \<and> ToSchema (VStruct ''Order''
       [(\<lparr>Name = ''Customer'', Tag = [(''json'', ''customer''), (''validate'', ''required'')], Exported = True\<rparr>,
         VStruct ''Customer''
           [(\<lparr>Name = ''Name'', Tag = [(''json'', ''name''), (''validate'', ''required'')], Exported = True\<rparr>,
             VBasic String ''string'')])])
     = Inr (Some (Schema ''object'' [] [] []
        [''customer'' \<mapsto> Schema ''object'' [] [''name''] []
           [''name'' \<mapsto> Schema ''string'' [] [] [] Map.empty None] None] None))"
  by (simp add: ToSchema_eval required_names_def)

text \<open>
  C2 fails on the code as stated: \<^verbatim>\<open>Properties\<close> is a Go map, which keeps no order. The
  schema of a struct does not tell in which order the fields were declared: the structs
  \<^verbatim>\<open>type T1 struct { A int; B string }\<close> and \<^verbatim>\<open>type T2 struct { B string; A int }\<close> have
  the same schema.
\<close>

theorem ToSchema_properties_unordered_counterexample:
  "ToSchema (VStruct ''T1''
       [(\<lparr>Name = ''A'', Tag = [], Exported = True\<rparr>, VBasic Int' ''int''),
        (\<lparr>Name = ''B'', Tag = [], Exported = True\<rparr>, VBasic String ''string'')])
   = ToSchema (VStruct ''T2''
       [(\<lparr>Name = ''B'', Tag = [], Exported = True\<rparr>, VBasic String ''string''),
        (\<lparr>Name = ''A'', Tag = [], Exported = True\<rparr>, VBasic Int' ''int'')])"
  by (simp add: ToSchema_eval fun_upd_twist)

text \<open>
  C2, amended. For a struct other than \<^verbatim>\<open>time.Time\<close>, given directly or behind a
  pointer, \<^verbatim>\<open>ToSchema\<close> returns exactly when every field of kind struct is exported and
  has a schema itself (otherwise it panics). The schema it returns has the type
  \<^verbatim>\<open>object\<close>, no format, example or items, and its properties are a map without order
  from the external names of the fields (the \<^verbatim>\<open>json\<close> tag, or the Go name) to their
  schemas; the fields are entered in the order of declaration, so that of two fields with
  the same external name the one declared later stays. The schema of a field of kind
  struct is the schema that \<^verbatim>\<open>ToSchema\<close> returns for the value of the field.
\<close>

theorem ToSchema_struct_object:
  "ToSchema (VPtr m (VStruct n fs)) = ToSchema (VStruct n fs)
   \<and> ((\<exists>r. ToSchema (VStruct n fs) = Inr r) \<longleftrightarrow> fields_readable fs)
   \<and> (fields_readable fs \<longrightarrow>
        (\<exists>s. ToSchema (VStruct n fs) = Inr (Some s) \<and> Type s = ''object'' \<and> Format s = []
           \<and> Example s = [] \<and> Items s = None
           \<and> Properties s = map_of (rev (map field_entry fs))
           \<and> dom (Properties s) = (\<lambda>p. fieldName_of (fst p)) ` set fs
           \<and> (\<forall>p \<in> set fs. Kind (snd p) = Struct \<longrightarrow>
                 ToSchema (snd p) = Inr (Some (nested_schema (snd p))))))"
proof (intro conjI impI)
  show "ToSchema (VPtr m (VStruct n fs)) = ToSchema (VStruct n fs)"
    by (simp add: ToSchema_not_nil)
next
  show "(\<exists>r. ToSchema (VStruct n fs) = Inr r) \<longleftrightarrow> fields_readable fs"
    by (rule ToSchema_VStruct_returns)
next
  assume r: "fields_readable fs"
  from ToSchema_VStruct_result [OF r, of n] obtain s where
    s: "ToSchema (VStruct n fs) = Inr (Some s)" "Type s = ''object''" "Format s = []"
      "Example s = []" "Items s = None" "Properties s = map_of (rev (map field_entry fs))"
    by blast
  have "dom (Properties s) = fst ` set (rev (map field_entry fs))"
    by (simp only: s dom_map_of_conv_image_fst)
  also have "\<dots> = (\<lambda>p. fieldName_of (fst p)) ` set fs"
    by (force simp: field_entry_def image_iff)
  finally have d: "dom (Properties s) = (\<lambda>p. fieldName_of (fst p)) ` set fs" .
  have nested: "\<forall>p \<in> set fs. Kind (snd p) = Struct \<longrightarrow>
      ToSchema (snd p) = Inr (Some (nested_schema (snd p)))"
    using fields_readable_nested [OF r] by blast
  from s d nested
  show "\<exists>s. ToSchema (VStruct n fs) = Inr (Some s) \<and> Type s = ''object'' \<and> Format s = []
           \<and> Example s = [] \<and> Items s = None
           \<and> Properties s = map_of (rev (map field_entry fs))
           \<and> dom (Properties s) = (\<lambda>p. fieldName_of (fst p)) ` set fs
           \<and> (\<forall>p \<in> set fs. Kind (snd p) = Struct \<longrightarrow>
                 ToSchema (snd p) = Inr (Some (nested_schema (snd p))))"
    by blast
qed

theorem ToSchema_struct_object_witness:
  "fields_readable
       [(\<lparr>Name = ''ID'', Tag = [(''json'', ''id'')], Exported = True\<rparr>, VBasic Int' ''int''),
        (\<lparr>Name = ''Customer'', Tag = [(''json'', ''customer'')], Exported = True\<rparr>,
         VStruct ''Customer''
           [(\<lparr>Name = ''Name'', Tag = [(''json'', ''name'')], Exported = True\<rparr>, VBasic String ''string'')])]
   \<and> (\<exists>s. ToSchema (VStruct ''Order''
       [(\<lparr>Name = ''ID'', Tag = [(''json'', ''id'')], Exported = True\<rparr>, VBasic Int' ''int''),
        (\<lparr>Name = ''Customer'', Tag = [(''json'', ''customer'')], Exported = True\<rparr>,
         VStruct ''Customer''
           [(\<lparr>Name = ''Name'', Tag = [(''json'', ''name'')], Exported = True\<rparr>, VBasic String ''string'')])])
         = Inr (Some s)
      \<and> Type s = ''object''
      \<and> dom (Properties s) = {''id'', ''customer''}
      \<and> Properties s ''id'' = Some (Schema ''integer'' [] [] [] Map.empty None)
      \<and> Properties s ''customer'' =
          Some (Schema ''object'' [] [] [] [''name'' \<mapsto> Schema ''string'' [] [] [] Map.empty None] None))"
proof -
  let ?customer = "VStruct ''Customer''
           [(\<lparr>Name = ''Name'', Tag = [(''json'', ''name'')], Exported = True\<rparr>, VBasic String ''string'')]"
  let ?fs = "[(\<lparr>Name = ''ID'', Tag = [(''json'', ''id'')], Exported = True\<rparr>, VBasic Int' ''int''),
        (\<lparr>Name = ''Customer'', Tag = [(''json'', ''customer'')], Exported = True\<rparr>, ?customer)]"
  have c: "ToSchema ?customer =
      Inr (Some (Schema ''object'' [] [] [] [''name'' \<mapsto> Schema ''string'' [] [] [] Map.empty None] None))"
    by (simp add: ToSchema_eval)
  have r: "fields_readable ?fs"
    by (simp add: fields_readable_def c)
  from ToSchema_struct_object [of "[]" "''Order''" ?fs] r
  obtain s where s: "ToSchema (VStruct ''Order'' ?fs) = Inr (Some s)" "Type s = ''object''"
      "Properties s = map_of (rev (map field_entry ?fs))"
      "dom (Properties s) = (\<lambda>p. fieldName_of (fst p)) ` set ?fs"
    by blast
  have d: "dom (Properties s) = {''id'', ''customer''}"
    by (simp add: s(4) fieldName_of_def Tag_Get_def)
  have p: "Properties s ''id'' = Some (Schema ''integer'' [] [] [] Map.empty None)"
    "Properties s ''customer'' =
       Some (Schema ''object'' [] [] [] [''name'' \<mapsto> Schema ''string'' [] [] [] Map.empty None] None)"
    by (simp_all add: s(3) field_entry_def nested_schema_def c basic_schema_def fieldName_of_def
        Tag_Get_def)
  from r s(1,2) d p show ?thesis by blast
qed

subsection \<open>Schemas of values of the plain kinds\<close>

lemma ToSchema_VBasic:
  "ToSchema (VBasic k n) =
     Inr (Some (Schema (if strings_Contains (plainkind_String k) ''int'' then ''integer''
                        else if k = Bool then ''boolean'' else plainkind_String k)
                  [] [] [] Map.empty None))"
  by (cases k) (simp_all add: ToSchema_eval)

text \<open>
  The integer kinds give \<^verbatim>\<open>integer\<close>, booleans \<^verbatim>\<open>boolean\<close> and strings \<^verbatim>\<open>string\<close>,
  whatever the name of the type, directly and behind a pointer.
\<close>

lemma ToSchema_integer_boolean_string:
  "(k \<in> {Int', Int8, Int16, Int32, Int64, Uint, Uint8, Uint16, Uint32, Uint64, Uintptr} \<longrightarrow>
      ToSchema (VBasic k n) = Inr (Some (Schema ''integer'' [] [] [] Map.empty None)))
   \<and> ToSchema (VBasic Bool n) = Inr (Some (Schema ''boolean'' [] [] [] Map.empty None))
   \<and> ToSchema (VBasic String n) = Inr (Some (Schema ''string'' [] [] [] Map.empty None))
   \<and> ToSchema (VPtr m (VBasic k n)) = ToSchema (VBasic k n)"
proof (intro conjI)
  show "ToSchema (VPtr m (VBasic k n)) = ToSchema (VBasic k n)"
    by (simp add: ToSchema_not_nil)
qed (auto simp: ToSchema_VBasic)

text \<open>
  C3 fails on the code for the floating-point kinds: no branch of \<^verbatim>\<open>ToSchema\<close> produces
  \<^verbatim>\<open>number\<close>. The type of the schema of a \<^verbatim>\<open>float64\<close> is the name of the kind,
  \<^verbatim>\<open>float64\<close>, and that of a \<^verbatim>\<open>float32\<close> is \<^verbatim>\<open>float32\<close>, directly, behind a pointer and
  as the field of a struct; neither is one of \<^verbatim>\<open>integer\<close>, \<^verbatim>\<open>boolean\<close>, \<^verbatim>\<open>string\<close>,
  \<^verbatim>\<open>number\<close>.
\<close>

theorem ToSchema_float_is_not_number:
  "ToSchema (VBasic Float64 ''float64'') = Inr (Some (Schema ''float64'' [] [] [] Map.empty None))
   \<and> ToSchema (VBasic Float32 ''float32'') = Inr (Some (Schema ''float32'' [] [] [] Map.empty None))
   \<and> ToSchema (VPtr [] (VBasic Float64 ''float64'')) =
       Inr (Some (Schema ''float64'' [] [] [] Map.empty None))
   \<and> ToSchema (VStruct ''Item''
         [(\<lparr>Name = ''Price'', Tag = [(''json'', ''price'')], Exported = True\<rparr>, VBasic Float64 ''float64'')])
       = Inr (Some (Schema ''object'' [] [] []
           [''price'' \<mapsto> Schema ''float64'' [] [] [] Map.empty None] None))
   \<and> ''float64'' \<notin> {''integer'', ''boolean'', ''string'', ''number''}
   \<and> ''float32'' \<notin> {''integer'', ''boolean'', ''string'', ''number''}"
  by (simp add: ToSchema_eval)

subsection \<open>Schemas of slices\<close>

lemma ToSchema_reflect_New:
  "ToSchema (reflect_New t) = (case schema_of (zero t) of Inl e \<Rightarrow> Inl e | Inr s \<Rightarrow> Inr (Some s))"
  by (simp add: reflect_New_def ToSchema_not_nil)

lemma ToSchema_zero_not_pointer:
  assumes "\<forall>m u. t \<noteq> TPtr m u"
  shows "ToSchema (reflect_New t) = ToSchema (zero t)"
  using assms by (cases t) (simp_all add: reflect_New_def ToSchema_not_nil)

text \<open>
  C4. For a slice, given directly or behind a pointer, whatever its elements, and with
  the element type dereferenced once when it is a pointer type: \<^verbatim>\<open>ToSchema\<close> panics
  when the synthesis for the element type panics, and otherwise returns the schema of
  type \<^verbatim>\<open>array\<close> (no format, example, required names or properties) whose items are
  the schema synthesized for the element type. That schema is never nil. It is the
  schema of a fresh pointer to the zero value of the element type, which is what the
  body of \<^verbatim>\<open>ToSchema\<close> gives for that zero value, and what \<^verbatim>\<open>ToSchema\<close> gives for the
  zero value itself when the dereferenced element type is not a pointer type again. For
  an element type of a plain kind the synthesis returns.
\<close>

theorem ToSchema_slice_array:
  "ToSchema (VSlice n t) =
     (case ToSchema (reflect_New (deref_type t)) of
        Inl e \<Rightarrow> Inl e
      | Inr items \<Rightarrow> Inr (Some (Schema ''array'' [] [] [] Map.empty items)))
   \<and> ToSchema (VPtr m (VSlice n t)) = ToSchema (VSlice n t)
   \<and> ToSchema (reflect_New (deref_type t)) \<noteq> Inr None
   \<and> ToSchema (reflect_New (deref_type t)) =
       (case schema_of (zero (deref_type t)) of Inl e \<Rightarrow> Inl e | Inr s \<Rightarrow> Inr (Some s))
   \<and> ((\<forall>m u. deref_type t \<noteq> TPtr m u) \<longrightarrow>
        ToSchema (reflect_New (deref_type t)) = ToSchema (zero (deref_type t)))
   \<and> (\<exists>items. ToSchema (VSlice n (TBasic k nm)) =
         Inr (Some (Schema ''array'' [] [] [] Map.empty (Some items)))
       \<and> ToSchema (VBasic k nm) = Inr (Some items)
       \<and> ToSchema (VSlice n (TPtr m (TBasic k nm))) = ToSchema (VSlice n (TBasic k nm)))"
proof (intro conjI)
  show "ToSchema (VSlice n t) =
     (case ToSchema (reflect_New (deref_type t)) of
        Inl e \<Rightarrow> Inl e
      | Inr items \<Rightarrow> Inr (Some (Schema ''array'' [] [] [] Map.empty items)))"
    by (simp add: ToSchema_not_nil schema_of_VSlice newSchema_def set_Type_def set_Items_def
        split: sum.split)
next
  show "ToSchema (VPtr m (VSlice n t)) = ToSchema (VSlice n t)"
    by (simp add: ToSchema_not_nil)
next
  show "ToSchema (reflect_New (deref_type t)) \<noteq> Inr None"
    by (simp add: ToSchema_reflect_New split: sum.split)
next
  show "ToSchema (reflect_New (deref_type t)) =
       (case schema_of (zero (deref_type t)) of Inl e \<Rightarrow> Inl e | Inr s \<Rightarrow> Inr (Some s))"
    by (rule ToSchema_reflect_New)
next
  show "(\<forall>m u. deref_type t \<noteq> TPtr m u) \<longrightarrow>
        ToSchema (reflect_New (deref_type t)) = ToSchema (zero (deref_type t))"
    using ToSchema_zero_not_pointer [of "deref_type t"] by blast
next
  have a: "ToSchema (VSlice n (TBasic k nm)) =
      Inr (Some (Schema ''array'' [] [] [] Map.empty (Some (kind_type (VBasic k nm) newSchema))))"
    by (simp add: ToSchema_not_nil schema_of_VSlice schema_of_VBasic reflect_New_def newSchema_def
        set_Type_def set_Items_def)
  have b: "ToSchema (VBasic k nm) = Inr (Some (kind_type (VBasic k nm) newSchema))"
    by (simp add: ToSchema_not_nil schema_of_VBasic)
  have c: "ToSchema (VSlice n (TPtr m (TBasic k nm))) = ToSchema (VSlice n (TBasic k nm))"
    by (simp add: ToSchema_not_nil schema_of_VSlice)
  from a b c show "\<exists>items. ToSchema (VSlice n (TBasic k nm)) =
         Inr (Some (Schema ''array'' [] [] [] Map.empty (Some items)))
       \<and> ToSchema (VBasic k nm) = Inr (Some items)
       \<and> ToSchema (VSlice n (TPtr m (TBasic k nm))) = ToSchema (VSlice n (TBasic k nm))"
    by blast
qed

theorem ToSchema_slice_array_witness:
  "(\<forall>m u. deref_type (TPtr [] TTime) \<noteq> TPtr m u)
   \<and> ToSchema (reflect_New (deref_type (TPtr [] TTime))) = ToSchema (zero TTime)
   \<and> ToSchema (VSlice [] (TPtr [] TTime)) =
       Inr (Some (Schema ''array'' [] [] [] Map.empty
         (Some (Schema ''string'' ''date-time'' [] ''0001-01-01T00:00:00Z'' Map.empty None))))"
proof -
  have h: "\<forall>m u. deref_type (TPtr [] TTime) \<noteq> TPtr m u" by simp
  from ToSchema_slice_array [of "[]" "TPtr [] TTime" "[]" Bool "[]"] h
  have e: "ToSchema (reflect_New (deref_type (TPtr [] TTime))) = ToSchema (zero (deref_type (TPtr [] TTime)))"
    and s: "ToSchema (VSlice [] (TPtr [] TTime)) =
     (case ToSchema (reflect_New (deref_type (TPtr [] TTime))) of
        Inl e \<Rightarrow> Inl e
      | Inr items \<Rightarrow> Inr (Some (Schema ''array'' [] [] [] Map.empty items)))"
    by blast+
  have z: "ToSchema (zero TTime) =
      Inr (Some (Schema ''string'' ''date-time'' [] ''0001-01-01T00:00:00Z'' Map.empty None))"
    by (simp add: ToSchema_eval)
  from h e s z show ?thesis by simp
qed

section \<open>Theorems: registration, middleware order, hidden routes\<close>

lemma Register_Inr:
  "Register s method path controller options = Inr (s', route) \<longleftrightarrow>
     (method, basePath s @ path) \<notin> fst ` set (Mux s)
     \<and> route = (apply_route_options options (newRoute method path))
                 \<lparr>Method := method, Path := basePath s @ path\<rparr>
     \<and> s' = s\<lparr>Mux := Mux s @
                  [((method, basePath s @ path),
                    withMiddlewares (HTTPHandler controller) (middlewares s @ Middlewares route))],
                specPaths := (if Hidden route then specPaths s
                              else specPaths s @ [((method, basePath s @ path), RouteOperation route)])\<rparr>"
  by (auto simp: Register_def Let_def)

lemma Register_conflict:
  "(method, basePath s @ path) \<in> fst ` set (Mux s) \<Longrightarrow>
   Register s method path controller options =
     Inl (Panic ''pattern conflicts with an already registered pattern'')"
  by (simp add: Register_def Let_def)

lemma map_of_snoc_new:
  "k \<notin> fst ` set xs \<Longrightarrow> map_of (xs @ [(k, v)]) k = Some v"
  by (induction xs) auto

lemma map_of_snoc_old:
  "k' \<in> fst ` set xs \<Longrightarrow> map_of (xs @ [(k, v)]) k' = map_of xs k'"
  by (induction xs) auto

lemma Register_Mux_new:
  assumes "Register s method path controller options = Inr (s', route)"
  shows "map_of (Mux s') (method, basePath s @ path) =
     Some (withMiddlewares (HTTPHandler controller) (middlewares s @ Middlewares route))"
proof -
  from assms have k: "(method, basePath s @ path) \<notin> fst ` set (Mux s)"
    and m: "Mux s' = Mux s @
      [((method, basePath s @ path),
        withMiddlewares (HTTPHandler controller) (middlewares s @ Middlewares route))]"
    by (simp_all add: Register_Inr)
  show ?thesis unfolding m by (rule map_of_snoc_new [OF k])
qed

lemma Register_Mux_kept:
  assumes "Register s method path controller options = Inr (s', route)"
    and "k \<in> fst ` set (Mux s)"
  shows "map_of (Mux s') k = map_of (Mux s) k \<and> k \<in> fst ` set (Mux s')"
proof -
  from assms(1) obtain h where m: "Mux s' = Mux s @ [((method, basePath s @ path), h)]"
    by (simp add: Register_Inr)
  show ?thesis unfolding m using assms(2) by (simp only: map_of_snoc_old) auto
qed

lemma Register_unchanged:
  assumes "Register s method path controller options = Inr (s', route)"
  shows "basePath s' = basePath s \<and> middlewares s' = middlewares s
     \<and> Method route = method \<and> Path route = basePath s @ path"
  using assms by (simp add: Register_Inr)



lemma spec_within_mux_Use: "spec_within_mux (Use s mws) = spec_within_mux s"
  by (simp add: spec_within_mux_def Use_def)

text \<open>
  C7. A registration under a method and path that the server already holds panics,
  whatever the controller and the options: after a route has been registered, a
  second registration with the same method and path is refused, the handler of the
  first route is still the one that the mux holds for that method and path, and no
  later registration that succeeds changes it.
\<close>

theorem Register_duplicate_is_fatal:
  "((method, basePath s @ path) \<in> fst ` set (Mux s) \<longrightarrow>
      Register s method path controller2 options2 =
        Inl (Panic ''pattern conflicts with an already registered pattern''))
   \<and> (Register s method path controller1 options1 = Inr (s1, route1) \<longrightarrow>
        Register s1 method path controller2 options2 =
          Inl (Panic ''pattern conflicts with an already registered pattern'')
        \<and> map_of (Mux s1) (method, basePath s @ path) =
            Some (withMiddlewares (HTTPHandler controller1) (middlewares s @ Middlewares route1))
        \<and> (\<forall>method' path' controller' options' s2 route2.
              Register s1 method' path' controller' options' = Inr (s2, route2) \<longrightarrow>
              map_of (Mux s2) (method, basePath s @ path) =
                Some (withMiddlewares (HTTPHandler controller1) (middlewares s @ Middlewares route1))))"
proof (intro conjI impI allI)
  assume "(method, basePath s @ path) \<in> fst ` set (Mux s)"
  then show "Register s method path controller2 options2 =
        Inl (Panic ''pattern conflicts with an already registered pattern'')"
    by (rule Register_conflict)
next
  assume r: "Register s method path controller1 options1 = Inr (s1, route1)"
  then have k: "(method, basePath s1 @ path) \<in> fst ` set (Mux s1)"
    by (simp add: Register_Inr)
  then show "Register s1 method path controller2 options2 =
        Inl (Panic ''pattern conflicts with an already registered pattern'')"
    by (rule Register_conflict)
  show "map_of (Mux s1) (method, basePath s @ path) =
            Some (withMiddlewares (HTTPHandler controller1) (middlewares s @ Middlewares route1))"
    using r by (rule Register_Mux_new)
next
  fix method' path' controller' options' s2 route2
  assume r: "Register s method path controller1 options1 = Inr (s1, route1)"
    and r2: "Register s1 method' path' controller' options' = Inr (s2, route2)"
  from r have k: "(method, basePath s @ path) \<in> fst ` set (Mux s1)"
    by (simp add: Register_Inr)
  from Register_Mux_kept [OF r2 k] Register_Mux_new [OF r]
  show "map_of (Mux s2) (method, basePath s @ path) =
      Some (withMiddlewares (HTTPHandler controller1) (middlewares s @ Middlewares route1))"
    by simp
qed

lemma Register_succeeds:
  "(method, basePath s @ path) \<notin> fst ` set (Mux s) \<Longrightarrow>
   \<exists>s' route. Register s method path controller options = Inr (s', route)"
  by (simp add: Register_def Let_def)

theorem Register_duplicate_is_fatal_witness:
  "\<exists>s1 route1.
     Register initialServer ''GET'' ''/users'' (\<lambda>x. Inr ''first'') [] = Inr (s1, route1)
     \<and> (''GET'', basePath s1 @ ''/users'') \<in> fst ` set (Mux s1)
     \<and> Register s1 ''GET'' ''/users'' (\<lambda>x. Inr ''second'') [] =
         Inl (Panic ''pattern conflicts with an already registered pattern'')
     \<and> map_of (Mux s1) (''GET'', ''/users'') = Some (HTTPHandler (\<lambda>x. Inr ''first''))"
proof -
  have "(''GET'', basePath initialServer @ ''/users'') \<notin> fst ` set (Mux initialServer)"
    by (simp add: initialServer_def)
  then obtain s1 route1 where
    r: "Register initialServer ''GET'' ''/users'' (\<lambda>x. Inr ''first'') [] = Inr (s1, route1)"
    using Register_succeeds by blast
  have f: "basePath initialServer = []" "middlewares initialServer = []" "Middlewares route1 = []"
    "basePath s1 = []"
    using r by (simp_all add: Register_Inr initialServer_def newRoute_def)
  from Register_duplicate_is_fatal
    [of "''GET''" initialServer "''/users''" "\<lambda>x. Inr ''second''" "[]" "\<lambda>x. Inr ''first''" "[]" s1 route1] r
  have "Register s1 ''GET'' ''/users'' (\<lambda>x. Inr ''second'') [] =
         Inl (Panic ''pattern conflicts with an already registered pattern'')"
    and "map_of (Mux s1) (''GET'', ''/users'') = Some (HTTPHandler (\<lambda>x. Inr ''first''))"
    by (simp_all add: f)
  moreover have "(''GET'', basePath s1 @ ''/users'') \<in> fst ` set (Mux s1)"
    using r by (simp add: Register_Inr)
  ultimately show ?thesis using r by blast
qed

subsection \<open>Order of the middleware\<close>

lemma withMiddlewares_append:
  "withMiddlewares h (ms @ ms') = withMiddlewares (withMiddlewares h ms') ms"
  by (induction ms) simp_all

lemma withMiddlewares_orderMiddleware:
  "withMiddlewares h (map orderMiddleware ts) x = h (fold order_mark ts x)"
  by (induction ts arbitrary: x) (simp_all add: orderMiddleware_def)

lemma fold_order_mark:
  "reqHeader (fold order_mark ts x) ''X-Test-Order'' = reqHeader x ''X-Test-Order'' @ ts
   \<and> reqMethod (fold order_mark ts x) = reqMethod x \<and> reqPath (fold order_mark ts x) = reqPath x"
  by (induction ts arbitrary: x) (simp_all add: order_mark_def Header_Add_def)

lemma apply_route_options_Middleware:
  "Middlewares (apply_route_options (map option_Middleware rs) r) = Middlewares r @ concat rs"
  by (induction rs arbitrary: r) (simp_all add: option_Middleware_def)

lemma apply_route_options_orderMiddleware:
  "Middlewares (apply_route_options (map (\<lambda>t. option_Middleware [orderMiddleware t]) ts) r) =
     Middlewares r @ map orderMiddleware ts"
  by (induction ts arbitrary: r) (simp_all add: option_Middleware_def)

lemma ServeHTTP_registered:
  assumes "Register s method path controller options = Inr (s', route)"
    and "reqMethod x = method" "reqPath x = basePath s @ path"
  shows "ServeHTTP s' x =
     withMiddlewares (withMiddlewares (HTTPHandler controller) (Middlewares route)) (middlewares s) x"
  using Register_Mux_new [OF assms(1)] assms(2,3)
  by (simp add: ServeHTTP_def withMiddlewares_append)

lemma ServeHTTP_kept:
  assumes "Register s method path controller options = Inr (s', route)"
    and "(reqMethod x, reqPath x) \<in> fst ` set (Mux s)"
  shows "ServeHTTP s' x = ServeHTTP s x"
  using Register_Mux_kept [OF assms] by (simp add: ServeHTTP_def)

lemma ServeHTTP_Use: "ServeHTTP (Use s mws) x = ServeHTTP s x"
  by (simp add: ServeHTTP_def Use_def)

text \<open>
  C5. Middleware given to \<open>Use\<close> is kept in the order of registration, over several
  calls; the per-route middleware is kept in the order of the route options. The
  handler that the mux holds for a registered route is the controller wrapped first,
  innermost, by the route's middleware and then by the server's middleware as it was at
  registration, in both lists the earlier entry outside the later one. So a request to
  the route passes the server's middleware in the order of registration, then the
  route's middleware in the order of the options, then the controller; later
  registrations and later calls of \<open>Use\<close> do not change that. With the marking
  middleware of the tests, the controller receives the marks of the server's middleware
  followed by those of the route's middleware, after the values the request came with.
\<close>

theorem middleware_order:
  "middlewares (Use (Use s a) b) = middlewares s @ a @ b
   \<and> Middlewares (apply_route_options (map option_Middleware rs) r) = Middlewares r @ concat rs
   \<and> withMiddlewares h (m # ms) = m (withMiddlewares h ms)
   \<and> withMiddlewares h (ms @ ms') = withMiddlewares (withMiddlewares h ms') ms
   \<and> (Register s meth path controller options = Inr (s', route) \<longrightarrow>
        (\<forall>x. reqMethod x = meth \<and> reqPath x = basePath s @ path \<longrightarrow>
           ServeHTTP s' x =
             withMiddlewares (withMiddlewares (HTTPHandler controller) (Middlewares route))
               (middlewares s) x
           \<and> ServeHTTP (Use s' later) x = ServeHTTP s' x
           \<and> (\<forall>method2 path2 controller2 options2 s2 route2.
                 Register s' method2 path2 controller2 options2 = Inr (s2, route2) \<longrightarrow>
                 ServeHTTP s2 x = ServeHTTP s' x)))
   \<and> (Register (Use srv (map orderMiddleware ss)) meth path controller
          (map (\<lambda>t. option_Middleware [orderMiddleware t]) ts) = Inr (srv', route')
        \<and> middlewares srv = [] \<and> reqMethod req = meth \<and> reqPath req = basePath srv @ path \<longrightarrow>
        (\<exists>y. ServeHTTP srv' req = HTTPHandler controller y
            \<and> reqHeader y ''X-Test-Order'' = reqHeader req ''X-Test-Order'' @ ss @ ts))"
proof (intro conjI impI allI)
  show "middlewares (Use (Use s a) b) = middlewares s @ a @ b"
    by (simp add: Use_def)
  show "Middlewares (apply_route_options (map option_Middleware rs) r) = Middlewares r @ concat rs"
    by (rule apply_route_options_Middleware)
  show "withMiddlewares h (m # ms) = m (withMiddlewares h ms)"
    by simp
  show "withMiddlewares h (ms @ ms') = withMiddlewares (withMiddlewares h ms') ms"
    by (rule withMiddlewares_append)
next
  fix x :: Exchange
  assume r: "Register s meth path controller options = Inr (s', route)"
    and x: "reqMethod x = meth \<and> reqPath x = basePath s @ path"
  show "ServeHTTP s' x =
      withMiddlewares (withMiddlewares (HTTPHandler controller) (Middlewares route)) (middlewares s) x"
    using ServeHTTP_registered [OF r] x by blast
  show "ServeHTTP (Use s' later) x = ServeHTTP s' x"
    by (rule ServeHTTP_Use)
next
  fix x :: Exchange
  fix method2 path2 controller2 options2 s2 route2
  assume r: "Register s meth path controller options = Inr (s', route)"
    and x: "reqMethod x = meth \<and> reqPath x = basePath s @ path"
    and r2: "Register s' method2 path2 controller2 options2 = Inr (s2, route2)"
  from r x have "(reqMethod x, reqPath x) \<in> fst ` set (Mux s')"
    by (simp add: Register_Inr)
  then show "ServeHTTP s2 x = ServeHTTP s' x"
    by (rule ServeHTTP_kept [OF r2])
next
  assume a: "Register (Use srv (map orderMiddleware ss)) meth path controller
          (map (\<lambda>t. option_Middleware [orderMiddleware t]) ts) = Inr (srv', route')
        \<and> middlewares srv = [] \<and> reqMethod req = meth \<and> reqPath req = basePath srv @ path"
  then have r: "Register (Use srv (map orderMiddleware ss)) meth path controller
          (map (\<lambda>t. option_Middleware [orderMiddleware t]) ts) = Inr (srv', route')"
    by blast
  from a have m: "middlewares (Use srv (map orderMiddleware ss)) = map orderMiddleware ss"
    and x: "reqMethod req = meth" "reqPath req = basePath (Use srv (map orderMiddleware ss)) @ path"
    by (simp_all add: Use_def)
  from r have rm: "Middlewares route' = map orderMiddleware ts"
    by (simp add: Register_Inr apply_route_options_orderMiddleware newRoute_def)
  have "ServeHTTP srv' req =
      withMiddlewares (withMiddlewares (HTTPHandler controller) (map orderMiddleware ts))
        (map orderMiddleware ss) req"
    using ServeHTTP_registered [OF r x] by (simp only: m rm)
  also have "\<dots> = HTTPHandler controller (fold order_mark ts (fold order_mark ss req))"
    by (simp only: withMiddlewares_orderMiddleware)
  finally have s: "ServeHTTP srv' req = HTTPHandler controller (fold order_mark ts (fold order_mark ss req))" .
  have "reqHeader (fold order_mark ts (fold order_mark ss req)) ''X-Test-Order'' =
      reqHeader req ''X-Test-Order'' @ ss @ ts"
    by (simp add: fold_order_mark)
  with s show "\<exists>y. ServeHTTP srv' req = HTTPHandler controller y
            \<and> reqHeader y ''X-Test-Order'' = reqHeader req ''X-Test-Order'' @ ss @ ts"
    by blast
qed

text \<open>The last case of \<^verbatim>\<open>TestUse\<close>, with the request that the test sends.\<close>

theorem middleware_order_witness:
  "\<exists>s1 route1 y.
     Register (Use (Use initialServer [orderMiddleware ''First!''])
                [orderMiddleware ''Second!'', orderMiddleware ''Third!''])
       ''GET'' ''/test'' (\<lambda>x. Inr ''test'')
       [option_Middleware [orderMiddleware ''Fourth!''], option_Middleware [orderMiddleware ''Fifth!'']]
       = Inr (s1, route1)
     \<and> ServeHTTP s1 \<lparr>reqMethod = ''GET'', reqPath = ''/test'',
                      reqHeader = (\<lambda>k. [])(''X-Test-Order'' := [''Start!'']),
                      respHeader = (\<lambda>k. []), respCode = 200, respBody = []\<rparr>
         = HTTPHandler (\<lambda>x. Inr ''test'') y
     \<and> reqHeader y ''X-Test-Order'' =
         [''Start!'', ''First!'', ''Second!'', ''Third!'', ''Fourth!'', ''Fifth!'']"
proof -
  let ?x0 = "\<lparr>reqMethod = ''GET'', reqPath = ''/test'',
              reqHeader = (\<lambda>k. [])(''X-Test-Order'' := [''Start!'']),
              respHeader = (\<lambda>k. []), respCode = 200, respBody = []\<rparr>"
  let ?s = "Use initialServer (map orderMiddleware [''First!'', ''Second!'', ''Third!''])"
  let ?opts = "map (\<lambda>t. option_Middleware [orderMiddleware t]) [''Fourth!'', ''Fifth!'']"
  have u: "Use (Use initialServer [orderMiddleware ''First!''])
                [orderMiddleware ''Second!'', orderMiddleware ''Third!''] = ?s"
    by (simp add: Use_def)
  have o: "[option_Middleware [orderMiddleware ''Fourth!''], option_Middleware [orderMiddleware ''Fifth!'']]
      = ?opts"
    by simp
  have "(''GET'', basePath ?s @ ''/test'') \<notin> fst ` set (Mux ?s)"
    by (simp add: Use_def initialServer_def)
  then obtain s1 route1 where
    r: "Register ?s ''GET'' ''/test'' (\<lambda>x. Inr ''test'') ?opts = Inr (s1, route1)"
    using Register_succeeds by blast
  have h: "middlewares initialServer = [] \<and> reqMethod ?x0 = ''GET''
      \<and> reqPath ?x0 = basePath initialServer @ ''/test''"
    by (simp add: initialServer_def)
  have c: "Register ?s ''GET'' ''/test'' (\<lambda>x. Inr ''test'') ?opts = Inr (s1, route1)
      \<and> middlewares initialServer = [] \<and> reqMethod ?x0 = ''GET''
      \<and> reqPath ?x0 = basePath initialServer @ ''/test''"
    using r h by blast
  from middleware_order [where srv = initialServer and ss = "[''First!'', ''Second!'', ''Third!'']"
      and ts = "[''Fourth!'', ''Fifth!'']" and meth = "''GET''" and path = "''/test''"
      and controller = "\<lambda>x. Inr ''test''" and srv' = s1 and route' = route1 and req = ?x0,
      THEN conjunct2, THEN conjunct2, THEN conjunct2, THEN conjunct2, THEN conjunct2, THEN mp, OF c]
  obtain y where "ServeHTTP s1 ?x0 = HTTPHandler (\<lambda>x. Inr ''test'') y"
    and "reqHeader y ''X-Test-Order'' = reqHeader ?x0 ''X-Test-Order'' @
        [''First!'', ''Second!'', ''Third!''] @ [''Fourth!'', ''Fifth!'']"
    by blast
  with r show ?thesis unfolding u o by auto
qed

subsection \<open>Hidden routes\<close>








end
